theory Spec2Isabelle
  imports Complex_Main "HOL-Library.Word" "HOL-Library.Multiset"
begin

section \<open>Common types\<close>

text \<open>
  Errors are values. The constructors name the error returns of the service. The two
  panics are Go run-time panics (nil pointer dereference, index or slice bound out of
  range), which are not returned to the caller but unwind the calling goroutine.
  \<open>ProcessExit\<close> is \<open>log.Fatalf\<close>, which ends the process.
  \<open>Diverged\<close> is not a result of the program: it marks a search over the node graph that
  did not return within the number of steps it was given.
\<close>

datatype error =
    ErrUpstream string
  | ErrWrapped string error
  | ErrSyntax
  | ErrRange
  | ErrOracle string
  | ErrTxEmpty
  | ErrNoInstructions
  | ErrInvalidInnerIndex int
  | ErrParentTopMissing int int
  | ErrParentNotFound int
  | ErrMetaNil
  | ErrDecode
  | ErrMultipleRoutes string
  | PanicNilPointer
  | PanicIndexOutOfRange
  | ProcessExit
  | Diverged

fun is_panic :: "error \<Rightarrow> bool" where
  "is_panic PanicNilPointer = True"
| "is_panic PanicIndexOutOfRange = True"
| "is_panic _ = False"


text \<open>
  A \<open>time.Time\<close> built by \<open>time.Unix(sec, 0)\<close> is represented by its Unix seconds; the zero
  value \<open>time.Time{}\<close> is January 1, year 1, 00:00 UTC.
\<close>

type_synonym time = int

definition zeroTime :: time where
  "zeroTime = - 62135596800"

definition UnixMilli :: "time \<Rightarrow> int" where
  "UnixMilli t = t * 1000"

subsection \<open>float64\<close>

text \<open>
  A \<open>float64\<close> is NaN, one of the two infinities, or a finite number; a finite value is
  represented by the real number it denotes (the sign of zero is not represented).
  Comparison, \<open>math.Trunc\<close> and decimal formatting are exact functions of the denoted
  number and are defined on this representation.
\<close>

datatype float64 = Fin real | PosInf | NegInf | NaN

text \<open>
  The arithmetic operations are not exact: the result of each depends on the IEEE 754
  rounding of that operation, and for \<open>a - b * c\<close> and \<open>a * b - c\<close> also on whether the
  compiler fuses the multiplication into the subtraction. The same holds of the
  conversion \<open>float64(i)\<close> of an \<open>int64\<close> and of \<open>math.Pow(10, float64(d))\<close>. None of them
  is given a definition. They are the fields of a record that every function computing
  with \<open>float64\<close> takes as its first argument, so that what is proved for an arbitrary
  \<open>float_arith\<close> holds whatever the machine computes.
\<close>

record float_arith =
  f_add :: "float64 \<Rightarrow> float64 \<Rightarrow> float64"
  f_sub :: "float64 \<Rightarrow> float64 \<Rightarrow> float64"
  f_mul :: "float64 \<Rightarrow> float64 \<Rightarrow> float64"
  f_div :: "float64 \<Rightarrow> float64 \<Rightarrow> float64"
  f_sub_prod :: "float64 \<Rightarrow> float64 \<Rightarrow> float64 \<Rightarrow> float64"
  f_prod_sub :: "float64 \<Rightarrow> float64 \<Rightarrow> float64 \<Rightarrow> float64"
  f_of_int64 :: "int \<Rightarrow> float64"
  f_pow10 :: "nat \<Rightarrow> float64"

text \<open>
  \<open>f_sub_prod A a b c\<close> is \<open>a - b * c\<close> and \<open>f_prod_sub A a b c\<close> is \<open>a * b - c\<close>;
  \<open>f_pow10 A d\<close> is \<open>math.Pow(10, float64(d))\<close> for a non-negative integer \<open>d\<close>.
\<close>

fun fle :: "float64 \<Rightarrow> float64 \<Rightarrow> bool" where
  "fle (Fin x) (Fin y) = (x \<le> y)"
| "fle NaN _ = False"
| "fle _ NaN = False"
| "fle NegInf _ = True"
| "fle _ PosInf = True"
| "fle _ _ = False"

fun flt :: "float64 \<Rightarrow> float64 \<Rightarrow> bool" where
  "flt (Fin x) (Fin y) = (x < y)"
| "flt NaN _ = False"
| "flt _ NaN = False"
| "flt PosInf _ = False"
| "flt _ NegInf = False"
| "flt _ _ = True"

text \<open>\<open>math.Trunc\<close>: the integer part, rounding toward zero; special values unchanged.\<close>

definition trunc_real :: "real \<Rightarrow> int" where
  "trunc_real x = (if 0 \<le> x then \<lfloor>x\<rfloor> else \<lceil>x\<rceil>)"

fun math_Trunc :: "float64 \<Rightarrow> float64" where
  "math_Trunc (Fin x) = Fin (of_int (trunc_real x))"
| "math_Trunc v = v"

subsection \<open>Decimal strings\<close>

definition digit_val :: "char \<Rightarrow> nat option" where
  "digit_val c = (let n = (of_char c :: nat) in if 48 \<le> n \<and> n \<le> 57 then Some (n - 48) else None)"

fun parse_uint :: "string \<Rightarrow> nat \<Rightarrow> nat option" where
  "parse_uint [] acc = Some acc"
| "parse_uint (c # cs) acc =
     (case digit_val c of None \<Rightarrow> None | Some d \<Rightarrow> parse_uint cs (acc * 10 + d))"

text \<open>
  \<open>strconv.ParseInt(s, 10, 64)\<close>: an optional sign, then one or more decimal digits
  (no underscores in base 10); the value must lie in \<open>[-2^63, 2^63 - 1]\<close>.
\<close>

definition strconv_ParseInt :: "string \<Rightarrow> error + int" where
  "strconv_ParseInt s =
     (case s of
        [] \<Rightarrow> Inl ErrSyntax
      | c # cs \<Rightarrow>
          (let neg = (c = CHR ''-'');
               s1 = (if c = CHR ''+'' \<or> c = CHR ''-'' then cs else s)
           in if s1 = [] then Inl ErrSyntax
              else (case parse_uint s1 0 of
                      None \<Rightarrow> Inl ErrSyntax
                    | Some n \<Rightarrow>
                        if \<not> neg \<and> 2 ^ 63 \<le> n then Inl ErrRange
                        else if neg \<and> 2 ^ 63 < n then Inl ErrRange
                        else Inr (if neg then - int n else int n))))"

function dec_digits :: "nat \<Rightarrow> string" where
  "dec_digits n =
     (if n < 10 then [''0123456789'' ! n]
      else dec_digits (n div 10) @ [''0123456789'' ! (n mod 10)])"
  by pat_completeness auto
termination
  by (relation "measure (\<lambda>n. n)") auto

declare dec_digits.simps [simp del]

text \<open>\<open>strconv.FormatInt(i, 10)\<close> and \<open>(*big.Int).String()\<close>.\<close>

definition FormatInt :: "int \<Rightarrow> string" where
  "FormatInt i = (if i < 0 then CHR ''-'' # dec_digits (nat (- i)) else dec_digits (nat i))"


section \<open>Transactions as the RPC client returns them\<close>

text \<open>
  The part of \<open>rpc.GetTransactionResult\<close> that the service reads. A public key and a
  signature are represented by their base58 text, which is what the service compares and
  uses as map keys. Pointer fields that may be nil are options.
\<close>

type_synonym pubkey = string

record UiTokenAmount =
  Amount :: string
  Decimals :: "8 word"
  UiAmountString :: string

record CompiledInstruction =
  ProgramIDIndex :: "16 word"
  Accounts :: "16 word list"
  Data :: "8 word list"

record InnerInstruction =
  Index :: "16 word"
  Instructions :: "CompiledInstruction list"

record TokenBalance =
  AccountIndex :: "16 word"
  Owner :: "pubkey option"
  Mint :: pubkey
  UiTokenAmount :: "UiTokenAmount option"

record LoadedAddresses =
  ReadOnly :: "pubkey list"
  Writable :: "pubkey list"

record TransactionMeta =
  PreBalances :: "64 word list"
  PostBalances :: "64 word list"
  PreTokenBalances :: "TokenBalance list"
  PostTokenBalances :: "TokenBalance list"
  InnerInstructions :: "InnerInstruction list"
  LoadedAddresses :: LoadedAddresses

text \<open>\<open>IsLegacy\<close> is \<open>GetVersion() == MessageVersionLegacy\<close>.\<close>

record Message =
  AccountKeys :: "pubkey list"
  Instructions :: "CompiledInstruction list"
  IsLegacy :: bool

text \<open>
  \<open>Transaction\<close> is the envelope pointer (\<open>None\<close> is nil) holding what
  \<open>GetTransaction()\<close> on the envelope yields: a decoding error or the message.
\<close>

record GetTransactionResult =
  Slot :: "64 word"
  BlockTime :: "int option"
  Transaction :: "(error + Message) option"
  Meta :: "TransactionMeta option"

text \<open>
  The upstream calls are parameters: decoding an address, one page of signatures for an
  address (before a cursor, at most a limit), and one transaction by signature. Each
  answers with an error message or a value.
\<close>

record upstream =
  PublicKeyFromBase58 :: "string \<Rightarrow> string + pubkey"
  GetSignaturesForAddressWithOpts :: "pubkey \<Rightarrow> string option \<Rightarrow> int \<Rightarrow> string + string list"
  GetTransaction :: "string \<Rightarrow> string + GetTransactionResult"

section \<open>Fetching, caching and ordering transactions\<close>

record Transaction =
  Signature :: string
  Slot :: "64 word"
  BlockTime :: time
  RawTx :: GetTransactionResult

subsection \<open>sortTransactionsByTime\<close>

text \<open>
  The slice holds pointers; \<open>None\<close> is a nil pointer, whose dereference panics. The two
  nested index loops are \<open>sortOuter\<close> (over \<open>i\<close>) and \<open>sortInner\<close> (over \<open>j\<close>).
\<close>

definition swapAt :: "nat \<Rightarrow> nat \<Rightarrow> 'a list \<Rightarrow> 'a list" where
  "swapAt i j xs = xs[i := xs ! j, j := xs ! i]"

function sortInner ::
  "nat \<Rightarrow> nat \<Rightarrow> Transaction option list \<Rightarrow> error + Transaction option list" where
  "sortInner i j txs =
     (if j < length txs then
        (if i < length txs then
           (case (txs ! j, txs ! i) of
              (Some tj, Some ti) \<Rightarrow>
                sortInner i (j + 1)
                  (if Transaction.BlockTime tj < Transaction.BlockTime ti then swapAt i j txs
                   else if Transaction.BlockTime tj = Transaction.BlockTime ti
                           \<and> Transaction.Slot tj < Transaction.Slot ti
                   then swapAt i j txs
                   else txs)
            | _ \<Rightarrow> Inl PanicNilPointer)
         else Inl PanicIndexOutOfRange)
      else Inr txs)"
  by pat_completeness auto
termination
  by (relation "measure (\<lambda>(i, j, txs). length txs - j)") (auto simp: swapAt_def)

declare sortInner.simps [simp del]

function sortOuter :: "nat \<Rightarrow> Transaction option list \<Rightarrow> error + Transaction option list" where
  "sortOuter i txs =
     (if i < length txs then
        (case sortInner i (i + 1) txs of
           Inl err \<Rightarrow> Inl err
         | Inr txs' \<Rightarrow> sortOuter (i + 1) txs')
      else Inr txs)"
  by pat_completeness auto
termination
proof (relation "measure (\<lambda>(i, txs). length txs - i)")
  show "wf (measure (\<lambda>(i, txs). length txs - i))"
    by simp
next
  fix i :: nat and txs txs' :: "Transaction option list"
  assume i: "i < length txs" and r: "sortInner i (i + 1) txs = Inr txs'"
  have len: "sortInner a b xs = Inr ys \<Longrightarrow> length ys = length xs" for a b xs ys
  proof (induction a b xs rule: sortInner.induct)
    case (1 a b xs)
    show ?case
    proof (cases "b < length xs \<and> a < length xs")
      case False
      with "1.prems" show ?thesis
        by (subst (asm) sortInner.simps) (auto split: if_splits)
    next
      case True
      with "1.prems" obtain tj ti where
        e: "xs ! b = Some tj" "xs ! a = Some ti"
        by (subst (asm) sortInner.simps) (auto split: option.splits)
      define xs' where
        "xs' = (if Transaction.BlockTime tj < Transaction.BlockTime ti then swapAt a b xs
                else if Transaction.BlockTime tj = Transaction.BlockTime ti
                        \<and> Transaction.Slot tj < Transaction.Slot ti
                then swapAt a b xs
                else xs)"
      from True e "1.prems" have "sortInner a (b + 1) xs' = Inr ys"
        by (subst (asm) sortInner.simps) (simp add: xs'_def)
      with True e have "length ys = length xs'"
        using "1.IH" [of "xs ! b" "xs ! a" tj ti] by (simp add: xs'_def)
      then show ?thesis
        by (simp add: xs'_def swapAt_def)
    qed
  qed
  from len [OF r] i
  show "((i + 1, txs'), (i, txs)) \<in> measure (\<lambda>(i, txs). length txs - i)"
    by simp
qed

declare sortOuter.simps [simp del]

definition sortTransactionsByTime :: "Transaction option list \<Rightarrow> error + Transaction option list" where
  "sortTransactionsByTime txs = sortOuter 0 txs"

text \<open>
  Ascending by block time, then by slot: the order the result is meant to have. A nil
  pointer has no place in it.
\<close>

definition byTimeThenSlot :: "Transaction option \<Rightarrow> Transaction option \<Rightarrow> bool" where
  "byTimeThenSlot a b =
     (case (a, b) of
        (Some x, Some y) \<Rightarrow>
          Transaction.BlockTime x < Transaction.BlockTime y
          \<or> (Transaction.BlockTime x = Transaction.BlockTime y
              \<and> Transaction.Slot x \<le> Transaction.Slot y)
      | _ \<Rightarrow> False)"

subsection \<open>getPaginatedSignatures\<close>

function pageLoop ::
  "upstream \<Rightarrow> pubkey \<Rightarrow> int \<Rightarrow> string list \<Rightarrow> string option \<Rightarrow> int \<Rightarrow> error + string list" where
  "pageLoop up userAddr limit allSignatures before pageSize =
     (if int (length allSignatures) < limit then
        (let remaining = limit - int (length allSignatures);
             pageSize' = (if remaining < pageSize then remaining else pageSize)
         in case GetSignaturesForAddressWithOpts up userAddr before pageSize' of
              Inl msg \<Rightarrow> Inl (ErrUpstream msg)
            | Inr sigs \<Rightarrow>
                if sigs = [] then Inr allSignatures
                else if int (length sigs) < pageSize' then Inr (allSignatures @ sigs)
                else pageLoop up userAddr limit (allSignatures @ sigs) (Some (last sigs)) pageSize')
      else Inr allSignatures)"
  by pat_completeness auto
termination
  by (relation "measure (\<lambda>(up, userAddr, limit, allSignatures, before, pageSize).
                   nat (limit - int (length allSignatures)))")
     (auto simp: Let_def)

declare pageLoop.simps [simp del]

definition getPaginatedSignatures ::
  "upstream \<Rightarrow> int \<Rightarrow> string \<Rightarrow> int \<Rightarrow> error + string list" where
  "getPaginatedSignatures up batchSize user limit =
     (case PublicKeyFromBase58 up user of
        Inl msg \<Rightarrow> Inl (ErrUpstream msg)
      | Inr userAddr \<Rightarrow> pageLoop up userAddr limit [] None batchSize)"

subsection \<open>The cache\<close>

type_synonym cache = "string \<rightharpoonup> Transaction"

fun getCachedTransactions ::
  "cache \<Rightarrow> string list \<Rightarrow> Transaction option list \<times> string list" where
  "getCachedTransactions c [] = ([], [])"
| "getCachedTransactions c (sig # signatures) =
     (let (cached, remaining) = getCachedTransactions c signatures
      in case c sig of
           Some tx \<Rightarrow> (Some tx # cached, remaining)
         | None \<Rightarrow> (cached, sig # remaining))"

fun cacheTransactions :: "cache \<Rightarrow> Transaction option list \<Rightarrow> cache" where
  "cacheTransactions c [] = c"
| "cacheTransactions c (tx # transactions) =
     (case tx of
        Some t \<Rightarrow> cacheTransactions (c(Transaction.Signature t \<mapsto> t)) transactions
      | None \<Rightarrow> cacheTransactions c transactions)"

subsection \<open>concurrentGetTransactions\<close>

text \<open>
  Every worker sends exactly one message on the result channel: its index with either the
  transaction or the error (the fields \<open>index\<close>, \<open>tx\<close> and \<open>err\<close> of the channel's
  element type). \<open>worker\<close> is the body of one goroutine.
\<close>

record fetchResult =
  res_index :: nat
  res_tx :: "Transaction option"
  res_err :: "error option"

definition worker :: "upstream \<Rightarrow> nat \<Rightarrow> string \<Rightarrow> fetchResult" where
  "worker up idx signature =
     (case GetTransaction up signature of
        Inl msg \<Rightarrow>
          \<lparr>res_index = idx, res_tx = None,
           res_err = Some (ErrWrapped (''get transaction '' @ signature @ '' failed'') (ErrUpstream msg))\<rparr>
      | Inr rawTx \<Rightarrow>
          (let blockTime = (case GetTransactionResult.BlockTime rawTx of
                              Some t \<Rightarrow> t
                            | None \<Rightarrow> zeroTime)
           in \<lparr>res_index = idx,
               res_tx = Some \<lparr>Signature = signature, Slot = GetTransactionResult.Slot rawTx,
                          BlockTime = blockTime, RawTx = rawTx\<rparr>,
               res_err = None\<rparr>))"

text \<open>
  The loop that drains the channel. Its first statement reads \<open>res.tx.Signature\<close>, which
  dereferences \<open>res.tx\<close> before the test \<open>res.tx != nil\<close> further down.
\<close>

fun collect ::
  "fetchResult list \<Rightarrow> Transaction option list \<Rightarrow> error option
     \<Rightarrow> error + (Transaction option list \<times> error option)" where
  "collect [] results firstErr = Inr (results, firstErr)"
| "collect (res # rest) results firstErr =
     (case res_tx res of
        None \<Rightarrow> Inl PanicNilPointer
      | Some t \<Rightarrow>
          (let firstErr' = (if res_err res \<noteq> None \<and> firstErr = None then res_err res
                            else firstErr);
               results' = (if res_tx res \<noteq> None then results[res_index res := res_tx res]
                           else results)
           in collect rest results' firstErr'))"

text \<open>
  \<open>arrival\<close> is the order in which the channel hands the workers' messages to the
  collecting loop; it depends on the scheduler and is a parameter.
\<close>

definition concurrentGetTransactions ::
  "upstream \<Rightarrow> (fetchResult list \<Rightarrow> fetchResult list) \<Rightarrow> string list
     \<Rightarrow> error + Transaction option list" where
  "concurrentGetTransactions up arrival signatures =
     (let sent = map (\<lambda>(idx, signature). worker up idx signature)
                   (zip [0 ..< length signatures] signatures)
      in case collect (arrival sent) (replicate (length signatures) None) None of
           Inl e \<Rightarrow> Inl e
         | Inr (results, firstErr) \<Rightarrow>
             (case firstErr of Some e \<Rightarrow> Inl e | None \<Rightarrow> Inr results))"

subsection \<open>getBatchTransactions and GetTransactions\<close>

definition getBatchTransactions ::
  "upstream \<Rightarrow> (fetchResult list \<Rightarrow> fetchResult list) \<Rightarrow> cache \<Rightarrow> string list
     \<Rightarrow> error + (Transaction option list \<times> cache)" where
  "getBatchTransactions up arrival c signatures =
     (let (cached, remaining) = getCachedTransactions c signatures
      in if remaining = [] then Inr (cached, c)
         else (case concurrentGetTransactions up arrival remaining of
                 Inl e \<Rightarrow> Inl e
               | Inr newTransactions \<Rightarrow>
                   Inr (cached @ newTransactions, cacheTransactions c newTransactions)))"

text \<open>
  An error returned by \<open>getBatchTransactions\<close> is wrapped; a panic raised below it is
  not a value and passes through \<open>GetTransactions\<close> as it is.
\<close>

definition GetTransactions ::
  "upstream \<Rightarrow> (fetchResult list \<Rightarrow> fetchResult list) \<Rightarrow> int \<Rightarrow> cache \<Rightarrow> string \<Rightarrow> int
     \<Rightarrow> error + (Transaction option list \<times> cache)" where
  "GetTransactions up arrival batchSize c userAddress limit =
     (case getPaginatedSignatures up batchSize userAddress limit of
        Inl e \<Rightarrow> Inl (ErrWrapped ''get signatures failed'' e)
      | Inr signatures \<Rightarrow>
          if signatures = [] then Inr ([], c)
          else (case getBatchTransactions up arrival c signatures of
                  Inl e \<Rightarrow>
                    Inl (if is_panic e then e else ErrWrapped ''get transactions failed'' e)
                | Inr (transactions, c') \<Rightarrow>
                    (case sortTransactionsByTime transactions of
                       Inl e \<Rightarrow> Inl e
                     | Inr transactions' \<Rightarrow> Inr (transactions', c'))))"

section \<open>The instruction tree\<close>

text \<open>
  Nodes are heap objects linked by pointers in both directions. The heap is the list of
  the nodes in allocation order and a pointer is a position in it; \<open>Parent = None\<close> is the
  nil pointer. Every pointer stored in a node refers to an allocated node.
\<close>

record StackInstructionNode =
  Index :: int
  StackHeight :: "64 word"
  ProgramIDIndex :: "16 word"
  Data :: "8 word list"
  Accounts :: "16 word list"
  Parent :: "nat option"
  Children :: "nat list"
  InnerIndexes :: "int list"

type_synonym heap = "StackInstructionNode list"

record indexedInstruction =
  Index :: int
  ParentTopIndex :: int
  StackHeight :: "64 word"
  ProgramIDIndex :: "16 word"
  Data :: "8 word list"
  Accounts :: "16 word list"

subsection \<open>getAllInstructionsWithStackHeight\<close>

definition topLevelInstruction :: "nat \<Rightarrow> CompiledInstruction \<Rightarrow> indexedInstruction" where
  "topLevelInstruction i ix =
     \<lparr>Index = int i, ParentTopIndex = - 1, StackHeight = 0,
      ProgramIDIndex = CompiledInstruction.ProgramIDIndex ix,
      Data = CompiledInstruction.Data ix,
      Accounts = CompiledInstruction.Accounts ix\<rparr>"

text \<open>The loop over the instructions of one inner group; each takes the next global index.\<close>

fun addGroup ::
  "int \<Rightarrow> 64 word \<Rightarrow> CompiledInstruction list \<Rightarrow> indexedInstruction list
     \<Rightarrow> indexedInstruction list" where
  "addGroup parentTopIndex childStackHeight [] allInstr = allInstr"
| "addGroup parentTopIndex childStackHeight (ix # ixs) allInstr =
     addGroup parentTopIndex childStackHeight ixs
       (allInstr @
          [\<lparr>Index = int (length allInstr), ParentTopIndex = parentTopIndex,
            StackHeight = childStackHeight,
            ProgramIDIndex = CompiledInstruction.ProgramIDIndex ix,
            Data = CompiledInstruction.Data ix,
            Accounts = CompiledInstruction.Accounts ix\<rparr>])"

text \<open>The loop over the inner groups; \<open>nTop\<close> is \<open>len(topLevelInstrs)\<close>.\<close>

fun addInnerGroups ::
  "nat \<Rightarrow> InnerInstruction list \<Rightarrow> indexedInstruction list \<Rightarrow> error + indexedInstruction list" where
  "addInnerGroups nTop [] allInstr = Inr allInstr"
| "addInnerGroups nTop (inner # rest) allInstr =
     (let parentTopIndex = int (unat (InnerInstruction.Index inner))
      in if parentTopIndex < 0 \<or> int nTop \<le> parentTopIndex
         then Inl (ErrInvalidInnerIndex parentTopIndex)
         else (let parentStackHeight =
                     indexedInstruction.StackHeight (allInstr ! nat parentTopIndex);
                   childStackHeight = parentStackHeight + 1
               in addInnerGroups nTop rest
                    (addGroup parentTopIndex childStackHeight
                       (InnerInstruction.Instructions inner) allInstr)))"

definition getAllInstructionsWithStackHeight ::
  "GetTransactionResult \<Rightarrow> error + indexedInstruction list" where
  "getAllInstructionsWithStackHeight tx =
     (case Transaction tx of
        None \<Rightarrow> Inl PanicNilPointer
      | Some (Inl e) \<Rightarrow> Inl (ErrWrapped ''parse transaction message failed'' e)
      | Some (Inr message) \<Rightarrow>
          (let topLevelInstrs = Message.Instructions message;
               allInstr = map (\<lambda>(i, ix). topLevelInstruction i ix)
                            (zip [0 ..< length topLevelInstrs] topLevelInstrs)
           in case Meta tx of
                None \<Rightarrow> Inr allInstr
              | Some meta \<Rightarrow>
                  addInnerGroups (length topLevelInstrs) (InnerInstructions meta) allInstr))"

subsection \<open>Searching for the parent\<close>

text \<open>
  Both searches follow pointers, upward through \<open>Parent\<close> and downward through
  \<open>Children\<close>. The first argument bounds the number of nodes visited along one path.
\<close>

datatype lookup = Found nat | NotFound | OutOfSteps

fun walkUp :: "nat \<Rightarrow> heap \<Rightarrow> nat option \<Rightarrow> 64 word \<Rightarrow> lookup" where
  "walkUp 0 h current targetHeight = OutOfSteps"
| "walkUp (Suc n) h None targetHeight = NotFound"
| "walkUp (Suc n) h (Some a) targetHeight =
     (if StackInstructionNode.StackHeight (h ! a) = targetHeight then Found a
      else walkUp n h (Parent (h ! a)) targetHeight)"

fun findChildByStackHeight :: "nat \<Rightarrow> heap \<Rightarrow> nat \<Rightarrow> 64 word \<Rightarrow> lookup"
  and findAmongChildren :: "nat \<Rightarrow> heap \<Rightarrow> nat list \<Rightarrow> 64 word \<Rightarrow> lookup" where
  "findChildByStackHeight 0 h node targetHeight = OutOfSteps"
| "findChildByStackHeight (Suc n) h node targetHeight =
     (if StackInstructionNode.StackHeight (h ! node) = targetHeight then Found node
      else findAmongChildren n h (Children (h ! node)) targetHeight)"
| "findAmongChildren n h [] targetHeight = NotFound"
| "findAmongChildren n h (child # rest) targetHeight =
     (case findChildByStackHeight n h child targetHeight of
        Found a \<Rightarrow> Found a
      | NotFound \<Rightarrow> findAmongChildren n h rest targetHeight
      | OutOfSteps \<Rightarrow> OutOfSteps)"

definition findParentByStackHeight :: "nat \<Rightarrow> heap \<Rightarrow> nat \<Rightarrow> 64 word \<Rightarrow> lookup" where
  "findParentByStackHeight steps h startNode targetHeight =
     (case walkUp steps h (Some startNode) targetHeight of
        Found a \<Rightarrow> Found a
      | OutOfSteps \<Rightarrow> OutOfSteps
      | NotFound \<Rightarrow> findChildByStackHeight steps h startNode targetHeight)"

subsection \<open>ParseInstructionTreeByStackHeight\<close>

text \<open>
  The state of the loop over the sorted instructions: the heap, \<open>nodeMap\<close> (global index
  to node) and \<open>rootNodes\<close>.
\<close>

type_synonym build_state = "heap \<times> (int \<rightharpoonup> nat) \<times> nat list"

text \<open>The node allocated for an instruction, before it is linked.\<close>

definition newNode :: "indexedInstruction \<Rightarrow> StackInstructionNode" where
  "newNode instr =
     \<lparr>StackInstructionNode.Index = indexedInstruction.Index instr,
      StackInstructionNode.StackHeight = indexedInstruction.StackHeight instr,
      StackInstructionNode.ProgramIDIndex = indexedInstruction.ProgramIDIndex instr,
      StackInstructionNode.Data = indexedInstruction.Data instr,
      StackInstructionNode.Accounts = indexedInstruction.Accounts instr,
      Parent = None, Children = [], InnerIndexes = []\<rparr>"

text \<open>Setting \<open>node.Parent\<close> and appending to \<open>parentNode.Children\<close>.\<close>

definition link :: "heap \<Rightarrow> nat \<Rightarrow> nat \<Rightarrow> heap" where
  "link h node parentNode =
     (let h' = h[node := (h ! node)\<lparr>Parent := Some parentNode\<rparr>]
      in h'[parentNode := (h' ! parentNode)\<lparr>Children := Children (h' ! parentNode) @ [node]\<rparr>])"

definition buildNode :: "nat \<Rightarrow> build_state \<Rightarrow> indexedInstruction \<Rightarrow> error + build_state" where
  "buildNode steps st instr =
     (case st of (h, nodeMap, rootNodes) \<Rightarrow>
        (let node = length h;
             h1 = h @ [newNode instr];
             nodeMap1 = nodeMap(indexedInstruction.Index instr \<mapsto> node)
         in if ParentTopIndex instr = - 1 then Inr (h1, nodeMap1, rootNodes @ [node])
            else
              (case nodeMap1 (ParentTopIndex instr) of
                 None \<Rightarrow>
                   Inl (ErrParentTopMissing (indexedInstruction.Index instr) (ParentTopIndex instr))
               | Some parentTopNode \<Rightarrow>
                   (case findParentByStackHeight steps h1 parentTopNode
                           (indexedInstruction.StackHeight instr - 1) of
                      NotFound \<Rightarrow> Inl (ErrParentNotFound (indexedInstruction.Index instr))
                    | OutOfSteps \<Rightarrow> Inl Diverged
                    | Found parentNode \<Rightarrow> Inr (link h1 node parentNode, nodeMap1, rootNodes)))))"

fun buildNodes :: "nat \<Rightarrow> build_state \<Rightarrow> indexedInstruction list \<Rightarrow> error + build_state" where
  "buildNodes steps st [] = Inr st"
| "buildNodes steps st (instr # rest) =
     (case buildNode steps st instr of
        Inl e \<Rightarrow> Inl e
      | Inr st' \<Rightarrow> buildNodes steps st' rest)"

text \<open>The loop that reparents every discovered root to the virtual root.\<close>

fun reparent :: "nat \<Rightarrow> nat list \<Rightarrow> heap \<Rightarrow> heap" where
  "reparent virtualRoot [] h = h"
| "reparent virtualRoot (rootNode # rest) h =
     reparent virtualRoot rest (h[rootNode := (h ! rootNode)\<lparr>Parent := Some virtualRoot\<rparr>])"

text \<open>
  \<open>sort.Slice\<close> orders the instructions by global index; the indices are pairwise
  distinct, so the order it produces is the one of a stable sort.
\<close>

definition ParseInstructionTreeByStackHeight ::
  "nat \<Rightarrow> GetTransactionResult \<Rightarrow> error + (heap \<times> nat)" where
  "ParseInstructionTreeByStackHeight steps tx =
     (if Transaction tx = None then Inl ErrTxEmpty
      else
        (case getAllInstructionsWithStackHeight tx of
           Inl e \<Rightarrow> Inl (ErrWrapped ''get instructions failed'' e)
         | Inr allInstructions \<Rightarrow>
             if allInstructions = [] then Inl ErrNoInstructions
             else
               (case buildNodes steps ([], Map.empty, [])
                       (sort_key indexedInstruction.Index allInstructions) of
                  Inl e \<Rightarrow> Inl e
                | Inr (h, nodeMap, rootNodes) \<Rightarrow>
                    if 1 < length rootNodes then
                      (let virtualRoot = length h;
                           h1 = h @ [\<lparr>StackInstructionNode.Index = - 1,
                                      StackInstructionNode.StackHeight = 0,
                                      StackInstructionNode.ProgramIDIndex = 0,
                                      StackInstructionNode.Data = [],
                                      StackInstructionNode.Accounts = [], Parent = None,
                                      Children = rootNodes, InnerIndexes = []\<rparr>]
                       in Inr (reparent virtualRoot rootNodes h1, virtualRoot))
                    else
                      (case rootNodes of
                         [] \<Rightarrow> Inl PanicIndexOutOfRange
                       | rootNode # _ \<Rightarrow> Inr (h, rootNode)))))"

subsection \<open>Depth in the tree\<close>


subsection \<open>The shape of the flattened list and of the heap built from it\<close>





subsection \<open>Properties of the returned tree\<close>




section \<open>Locating the swap events\<close>

text \<open>
  \<open>hex.EncodeToString(node.Data[0:8]) == "e517cb977ae3ad2a"\<close> compares the first eight
  bytes with the bytes that the hexadecimal text denotes; likewise for the two tags of a
  swap event, \<open>e445a52e51cb9a1d\<close> and \<open>40c6cde8260871e2\<close>.
\<close>

definition routeTag :: "8 word list" where
  "routeTag = [0xe5, 0x17, 0xcb, 0x97, 0x7a, 0xe3, 0xad, 0x2a]"

definition eventTag :: "8 word list" where
  "eventTag = [0xe4, 0x45, 0xa5, 0x2e, 0x51, 0xcb, 0x9a, 0x1d]"

definition eventTag2 :: "8 word list" where
  "eventTag2 = [0x40, 0xc6, 0xcd, 0xe8, 0x26, 0x08, 0x71, 0xe2]"

text \<open>
  The recursive closure \<open>traverse\<close> of \<open>FindNodesByProgramID\<close>, with the two result slices
  as state; \<open>visitNode\<close> is what it does at one node before descending. Indexing the account keys out of range panics, and so do the slice expressions
  \<open>Data[0:8]\<close> and \<open>Data[8:16]\<close> on instruction data shorter than 16 bytes (the capacity
  of the data slice is taken to be its length). The first argument bounds the depth of the
  recursion.
\<close>

definition visitNode ::
  "pubkey list \<Rightarrow> pubkey \<Rightarrow> heap \<Rightarrow> nat \<Rightarrow> nat list \<times> nat list
     \<Rightarrow> error + (nat list \<times> nat list)" where
  "visitNode fullAccountKeys targetProgramID h node acc =
     (let programIDIndex = unat (StackInstructionNode.ProgramIDIndex (h ! node));
          nodeData = StackInstructionNode.Data (h ! node)
      in if length fullAccountKeys \<le> programIDIndex then Inl PanicIndexOutOfRange
         else if fullAccountKeys ! programIDIndex = targetProgramID then
           (if length nodeData < 16 then Inl PanicIndexOutOfRange
            else
              (let activeTag = take 8 nodeData;
                   activeTag2 = take 8 (drop 8 nodeData);
                   route = (if activeTag = routeTag then fst acc @ [node] else fst acc);
                   event = (if activeTag = eventTag \<and> activeTag2 = eventTag2
                            then snd acc @ [node] else snd acc)
               in Inr (route, event)))
         else Inr acc)"

fun traverse ::
  "nat \<Rightarrow> pubkey list \<Rightarrow> pubkey \<Rightarrow> heap \<Rightarrow> nat \<Rightarrow> nat list \<times> nat list
     \<Rightarrow> error + (nat list \<times> nat list)"
  and traverseChildren ::
  "nat \<Rightarrow> pubkey list \<Rightarrow> pubkey \<Rightarrow> heap \<Rightarrow> nat list \<Rightarrow> nat list \<times> nat list
     \<Rightarrow> error + (nat list \<times> nat list)" where
  "traverse 0 fullAccountKeys targetProgramID h node acc = Inl Diverged"
| "traverse (Suc n) fullAccountKeys targetProgramID h node acc =
     (case visitNode fullAccountKeys targetProgramID h node acc of
        Inl e \<Rightarrow> Inl e
      | Inr acc' \<Rightarrow>
          traverseChildren n fullAccountKeys targetProgramID h (Children (h ! node)) acc')"
| "traverseChildren n fullAccountKeys targetProgramID h [] acc = Inr acc"
| "traverseChildren n fullAccountKeys targetProgramID h (child # rest) acc =
     (case traverse n fullAccountKeys targetProgramID h child acc of
        Inl e \<Rightarrow> Inl e
      | Inr acc' \<Rightarrow> traverseChildren n fullAccountKeys targetProgramID h rest acc')"

definition FindNodesByProgramID ::
  "nat \<Rightarrow> pubkey list \<Rightarrow> heap \<Rightarrow> nat \<Rightarrow> pubkey \<Rightarrow> error + (nat list \<times> nat list)" where
  "FindNodesByProgramID steps fullAccountKeys h rootNode targetProgramID =
     traverse steps fullAccountKeys targetProgramID h rootNode ([], [])"

definition GetFullAccountKeys :: "GetTransactionResult \<Rightarrow> error + pubkey list" where
  "GetFullAccountKeys tx =
     (case Transaction tx of
        None \<Rightarrow> Inl PanicNilPointer
      | Some (Inl e) \<Rightarrow> Inl e
      | Some (Inr message) \<Rightarrow>
          if IsLegacy message then
            (case Meta tx of
               None \<Rightarrow> Inl PanicNilPointer
             | Some meta \<Rightarrow>
                 Inr (AccountKeys message @ Writable (LoadedAddresses meta)
                      @ ReadOnly (LoadedAddresses meta)))
          else Inr (AccountKeys message))"

section \<open>Balance changes\<close>

record TokenInfo =
  Owner :: string
  Mint :: string
  Decimals :: "8 word"

record TokenChange =
  Amount :: string
  Decimals :: "8 word"
  UiAmountString :: string
  UiAmount :: float64

text \<open>
  \<open>(*big.Int).SetString(s, 10)\<close>: an optional sign and one or more decimal digits; \<open>None\<close>
  is the nil result on failure.
\<close>

definition big_SetString :: "string \<Rightarrow> int option" where
  "big_SetString s =
     (case s of
        [] \<Rightarrow> None
      | c # cs \<Rightarrow>
          (let neg = (c = CHR ''-'');
               s1 = (if c = CHR ''+'' \<or> c = CHR ''-'' then cs else s)
           in if s1 = [] then None
              else (case parse_uint s1 0 of
                      None \<Rightarrow> None
                    | Some n \<Rightarrow> Some (if neg then - int n else int n))))"

definition formatTokenAmount :: "string \<Rightarrow> 8 word \<Rightarrow> string" where
  "formatTokenAmount amountStr decimals =
     (if amountStr = [] then ''0''
      else
        (let negative = (hd amountStr = CHR ''-'');
             s = (if negative then tl amountStr else amountStr);
             requiredLen = unat decimals + 1;
             padded = (if length s < requiredLen
                       then map (\<lambda>c. if c = CHR '' '' then CHR ''0'' else c)
                              (replicate (requiredLen - length s) (CHR ''0'') @ s)
                       else s);
             integerPart = take (length padded - unat decimals) padded;
             fractionalPart = drop (length padded - unat decimals) padded;
             trimmed = dropWhile (\<lambda>c. c = CHR ''0'') integerPart;
             integerPart' = (if trimmed = [] then ''0'' else trimmed);
             result = integerPart' @ ''.'' @ fractionalPart
         in if negative then CHR ''-'' # result else result))"

text \<open>
  The Go maps keyed by owner and then by asset are association lists keyed by the pair
  (owner, asset); the set \<open>accountAssetMap\<close> is the list of its keys. Go iterates a map in
  an unspecified order; the maps computed here, and whether a step panics, do not depend
  on that order. \<open>AL_update\<close> replaces the value of a key or adds the key at the end.
\<close>

fun AL_update :: "'k \<Rightarrow> 'v \<Rightarrow> ('k \<times> 'v) list \<Rightarrow> ('k \<times> 'v) list" where
  "AL_update k v [] = [(k, v)]"
| "AL_update k v (p # ps) = (if fst p = k then (k, v) # ps else p # AL_update k v ps)"

type_synonym balance_table = "((string \<times> string) \<times> UiTokenAmount) list"

text \<open>Step 1 and step 3: one entry of the pre or post token balances.\<close>

definition addTokenBalance ::
  "pubkey list \<Rightarrow> TokenBalance
     \<Rightarrow> (string \<times> TokenInfo) list \<times> balance_table \<times> string list
     \<Rightarrow> bool \<Rightarrow> error + ((string \<times> TokenInfo) list \<times> balance_table \<times> string list)" where
  "addTokenBalance accountKeys tb st post =
     (case st of (tokenMap, table, accountAssetMap) \<Rightarrow>
        (case TokenBalance.Owner tb of
           None \<Rightarrow> Inl PanicNilPointer
         | Some ownerAddr \<Rightarrow>
             (let mintAddr = TokenBalance.Mint tb;
                  accountIdx = unat (AccountIndex tb)
              in if length accountKeys \<le> accountIdx then Inl PanicIndexOutOfRange
                 else
                   (case TokenBalance.UiTokenAmount tb of
                      None \<Rightarrow> Inl PanicNilPointer
                    | Some amount \<Rightarrow>
                        (let pk = accountKeys ! accountIdx;
                             tokenInfo = \<lparr>TokenInfo.Owner = ownerAddr, TokenInfo.Mint = mintAddr,
                                          TokenInfo.Decimals = UiTokenAmount.Decimals amount\<rparr>;
                             entry = \<lparr>UiTokenAmount.Amount = UiTokenAmount.Amount amount,
                                      UiTokenAmount.Decimals = UiTokenAmount.Decimals amount,
                                      UiTokenAmount.UiAmountString = []\<rparr>
                         in Inr (AL_update pk tokenInfo tokenMap,
                                 AL_update (ownerAddr, mintAddr) entry table,
                                 if post then accountAssetMap @ [ownerAddr @ ''_'' @ mintAddr]
                                 else accountAssetMap))))))"

fun addTokenBalances ::
  "pubkey list \<Rightarrow> TokenBalance list
     \<Rightarrow> (string \<times> TokenInfo) list \<times> balance_table \<times> string list
     \<Rightarrow> bool \<Rightarrow> error + ((string \<times> TokenInfo) list \<times> balance_table \<times> string list)" where
  "addTokenBalances accountKeys [] st post = Inr st"
| "addTokenBalances accountKeys (tb # tbs) st post =
     (case addTokenBalance accountKeys tb st post of
        Inl e \<Rightarrow> Inl e
      | Inr st' \<Rightarrow> addTokenBalances accountKeys tbs st' post)"

text \<open>
  Step 2 and step 4: the native balances, under the asset \<open>SOL\<close> with 9 decimals;
  \<open>int64(bal)\<close> reads the unsigned balance as a signed number.
\<close>

definition addNativeBalance ::
  "pubkey list \<Rightarrow> nat \<Rightarrow> 64 word \<Rightarrow> balance_table \<times> string list \<Rightarrow> bool
     \<Rightarrow> error + (balance_table \<times> string list)" where
  "addNativeBalance accountKeys i bal st post =
     (if length accountKeys \<le> i then Inl PanicIndexOutOfRange
      else
        (let ownerAddr = accountKeys ! i;
             entry = \<lparr>UiTokenAmount.Amount = FormatInt (sint bal),
                      UiTokenAmount.Decimals = 9, UiTokenAmount.UiAmountString = []\<rparr>
         in Inr (AL_update (ownerAddr, ''SOL'') entry (fst st),
                 if post then snd st @ [ownerAddr @ ''_SOL''] else snd st)))"

fun addNativeBalances ::
  "pubkey list \<Rightarrow> nat \<Rightarrow> 64 word list \<Rightarrow> balance_table \<times> string list \<Rightarrow> bool
     \<Rightarrow> error + (balance_table \<times> string list)" where
  "addNativeBalances accountKeys i [] st post = Inr st"
| "addNativeBalances accountKeys i (bal # bals) st post =
     (case addNativeBalance accountKeys i bal st post of
        Inl e \<Rightarrow> Inl e
      | Inr st' \<Rightarrow> addNativeBalances accountKeys (i + 1) bals st' post)"

text \<open>Step 5: an asset held before and absent afterwards has balance 0 afterwards.\<close>

definition addVanishedEntry ::
  "(string \<times> string) \<times> UiTokenAmount \<Rightarrow> string list \<Rightarrow> balance_table \<Rightarrow> balance_table" where
  "addVanishedEntry entry accountAssetMap balanceMap =
     (let ownerAddr = fst (fst entry); assetID = snd (fst entry); preTa = snd entry
      in if ownerAddr @ ''_'' @ assetID \<in> set accountAssetMap then balanceMap
         else AL_update (ownerAddr, assetID)
                \<lparr>UiTokenAmount.Amount = ''0'',
                 UiTokenAmount.Decimals = UiTokenAmount.Decimals preTa,
                 UiTokenAmount.UiAmountString = []\<rparr>
                balanceMap)"

fun addVanished :: "balance_table \<Rightarrow> string list \<Rightarrow> balance_table \<Rightarrow> balance_table" where
  "addVanished [] accountAssetMap balanceMap = balanceMap"
| "addVanished (entry # rest) accountAssetMap balanceMap =
     addVanished rest accountAssetMap (addVanishedEntry entry accountAssetMap balanceMap)"

text \<open>
  Step 6: the absolute difference of the balances. An unreadable pre-balance counts as 0;
  an unreadable post-balance is a nil \<open>*big.Int\<close> passed to \<open>Sub\<close>.
\<close>

definition computeChange ::
  "balance_table \<Rightarrow> (string \<times> string) \<times> UiTokenAmount \<Rightarrow> error + TokenChange" where
  "computeChange preTokenBalMap entry =
     (let pre = map_of preTokenBalMap (fst entry);
          postTa = snd entry;
          preAmount = (case pre of
                         None \<Rightarrow> 0
                       | Some preTa \<Rightarrow>
                           (case big_SetString (UiTokenAmount.Amount preTa) of
                              None \<Rightarrow> 0
                            | Some v \<Rightarrow> v));
          decimals = (case pre of
                        None \<Rightarrow> UiTokenAmount.Decimals postTa
                      | Some preTa \<Rightarrow> UiTokenAmount.Decimals preTa)
      in case big_SetString (UiTokenAmount.Amount postTa) of
           None \<Rightarrow> Inl PanicNilPointer
         | Some postAmount \<Rightarrow>
             (let absoluteChange = \<bar>postAmount - preAmount\<bar>
              in Inr \<lparr>TokenChange.Amount = FormatInt absoluteChange,
                      TokenChange.Decimals = decimals,
                      TokenChange.UiAmountString =
                        formatTokenAmount (FormatInt absoluteChange) decimals,
                      UiAmount = Fin 0\<rparr>))"

fun computeChanges ::
  "balance_table \<Rightarrow> balance_table \<Rightarrow> ((string \<times> string) \<times> TokenChange) list
     \<Rightarrow> error + ((string \<times> string) \<times> TokenChange) list" where
  "computeChanges preTokenBalMap [] unifiedChangeMap = Inr unifiedChangeMap"
| "computeChanges preTokenBalMap (entry # rest) unifiedChangeMap =
     (case computeChange preTokenBalMap entry of
        Inl e \<Rightarrow> Inl e
      | Inr change \<Rightarrow>
          computeChanges preTokenBalMap rest (AL_update (fst entry) change unifiedChangeMap))"

definition GetBalanceChanges ::
  "GetTransactionResult \<Rightarrow> pubkey list
     \<Rightarrow> error + ((string \<times> TokenInfo) list \<times> ((string \<times> string) \<times> TokenChange) list)" where
  "GetBalanceChanges tx accountKeys =
     (case Meta tx of
        None \<Rightarrow> Inl ErrMetaNil
      | Some meta \<Rightarrow>
          (case addTokenBalances accountKeys (PreTokenBalances meta) ([], [], []) False of
             Inl e \<Rightarrow> Inl e
           | Inr (tokenMap1, pre1, _) \<Rightarrow>
               (case addNativeBalances accountKeys 0 (PreBalances meta) (pre1, []) False of
                  Inl e \<Rightarrow> Inl e
                | Inr (preTokenBalMap, _) \<Rightarrow>
                    (case addTokenBalances accountKeys (PostTokenBalances meta)
                            (tokenMap1, [], []) True of
                       Inl e \<Rightarrow> Inl e
                     | Inr (tokenMap, post1, assets1) \<Rightarrow>
                         (case addNativeBalances accountKeys 0 (PostBalances meta)
                                 (post1, assets1) True of
                            Inl e \<Rightarrow> Inl e
                          | Inr (post2, accountAssetMap) \<Rightarrow>
                              (case computeChanges preTokenBalMap
                                      (addVanished preTokenBalMap accountAssetMap post2) [] of
                                 Inl e \<Rightarrow> Inl e
                               | Inr unifiedChangeMap \<Rightarrow> Inr (tokenMap, unifiedChangeMap)))))))"

section \<open>Orders and the price oracle\<close>

record OrderTokenInfo =
  Mint :: string
  UiTokenAmount :: UiTokenAmount

record Order =
  Signature :: string
  Slot :: "64 word"
  BlockTime :: time
  BuyToken :: OrderTokenInfo
  SellToken :: OrderTokenInfo

record MarketRecord =
  Timestamp :: time
  Open :: float64
  High :: float64
  Low :: float64
  Close :: float64
  Volume :: float64
  Turnover :: float64
  IsComplete :: int

text \<open>
  The price client \<open>GetTokenHistoricalPriceByTimeLatest(ctx, mint, stime)\<close> is an HTTP
  client; it is a parameter of the model. Given a mint and a millisecond timestamp in
  decimal it returns an error (when the request cannot be made or its reply cannot be
  read from the network), or it calls \<open>log.Fatalf\<close> (when the reply is not the JSON it
  expects or a record does not convert), or it returns the list of candles of the reply.
\<close>

datatype okx_reply = OkxError string | OkxFatal | OkxRecords "MarketRecord list"

type_synonym okx_client = "string \<Rightarrow> string \<Rightarrow> okx_reply"

definition getHistoricalTokenPrice :: "okx_client \<Rightarrow> string \<Rightarrow> time \<Rightarrow> error + float64" where
  "getHistoricalTokenPrice okx mint timestamp =
     (case okx mint (FormatInt (UnixMilli timestamp)) of
        OkxError msg \<Rightarrow> Inl (ErrOracle msg)
      | OkxFatal \<Rightarrow> Inl ProcessExit
      | OkxRecords latest \<Rightarrow>
          (case latest of [] \<Rightarrow> Inl PanicIndexOutOfRange | r # _ \<Rightarrow> Inr (Close r)))"

text \<open>\<open>nowMs\<close> is the value of \<open>time.Now().UnixMilli()\<close> at the call.\<close>

definition getCurrentTokenPrice :: "okx_client \<Rightarrow> int \<Rightarrow> string \<Rightarrow> error + float64" where
  "getCurrentTokenPrice okx nowMs mint =
     (case okx mint (FormatInt nowMs) of
        OkxError msg \<Rightarrow> Inl (ErrOracle msg)
      | OkxFatal \<Rightarrow> Inl ProcessExit
      | OkxRecords latest \<Rightarrow>
          (case latest of [] \<Rightarrow> Inl PanicIndexOutOfRange | r # _ \<Rightarrow> Inr (Close r)))"

definition getTokenUSDValue ::
  "float_arith \<Rightarrow> okx_client \<Rightarrow> Order \<Rightarrow> bool \<Rightarrow> float64
     \<Rightarrow> error + (float64 \<times> float64)" where
  "getTokenUSDValue A okx order isBuy amount =
     (let tokenMint = (if isBuy then Mint (BuyToken order) else Mint (SellToken order))
      in case getHistoricalTokenPrice okx tokenMint (BlockTime order) of
           Inl err \<Rightarrow> Inl err
         | Inr price \<Rightarrow> Inr (f_mul A amount price, price))"

definition parseTokenAmount :: "float_arith \<Rightarrow> Order \<Rightarrow> bool \<Rightarrow> error + float64" where
  "parseTokenAmount A order isBuy =
     (let tokenAmount = (if isBuy then UiTokenAmount (BuyToken order)
                         else UiTokenAmount (SellToken order))
      in case strconv_ParseInt (UiTokenAmount.Amount tokenAmount) of
           Inl err \<Rightarrow> Inl (ErrWrapped ''parse amount failed'' err)
         | Inr amountInt \<Rightarrow>
             Inr (f_div A (f_of_int64 A amountInt)
                    (f_pow10 A (unat (UiTokenAmount.Decimals tokenAmount)))))"

section \<open>The position accountant\<close>

record Position =
  TotalAmount :: float64
  TotalCostUSD :: float64
  RealizedPnL :: float64
  TotalInvestment :: float64
  TotalQuantity :: float64
  AverageCost :: float64
  Transactions :: "Order list"
  IsClosed :: bool

record PnLResult =
  AverageCost :: float64
  ProfitLossPercentage :: string
  ProfitLossValue :: float64
  UnrealizedProfitLossValue :: float64
  IsClosed :: bool

definition newPosition :: Position where
  "newPosition =
     \<lparr>TotalAmount = Fin 0, TotalCostUSD = Fin 0, RealizedPnL = Fin 0,
      TotalInvestment = Fin 0, TotalQuantity = Fin 0, AverageCost = Fin 0,
      Transactions = [], IsClosed = False\<rparr>"

text \<open>The buy branch of the loop body of \<open>calculatePnL\<close>.\<close>

definition applyBuy ::
  "float_arith \<Rightarrow> Position \<Rightarrow> Order \<Rightarrow> float64 \<Rightarrow> float64 \<Rightarrow> Position" where
  "applyBuy A p order amount usdValue =
     (let totalInvestment = f_add A (TotalInvestment p) usdValue;
          totalQuantity = f_add A (TotalQuantity p) amount
      in p\<lparr>TotalAmount := f_add A (TotalAmount p) amount,
            TotalCostUSD := f_add A (TotalCostUSD p) usdValue,
            TotalInvestment := totalInvestment,
            TotalQuantity := totalQuantity,
            Position.AverageCost := f_div A totalInvestment totalQuantity,
            Transactions := Transactions p @ [order]\<rparr>)"

text \<open>The sell branch, up to the test for a closed position.\<close>

definition applySell ::
  "float_arith \<Rightarrow> Position \<Rightarrow> Order \<Rightarrow> float64 \<Rightarrow> float64 \<Rightarrow> Position" where
  "applySell A p order amount usdValue =
     (let averageCost = Position.AverageCost p;
          realized = f_sub_prod A usdValue amount averageCost
      in p\<lparr>RealizedPnL := f_add A (RealizedPnL p) realized,
            TotalAmount := f_sub A (TotalAmount p) amount,
            TotalCostUSD := f_sub_prod A (TotalCostUSD p) amount averageCost,
            Transactions := Transactions p @ [order]\<rparr>)"

text \<open>
  The state of the loop of \<open>calculatePnL\<close>: the closed positions so far and the current
  position (\<open>None\<close> is the nil pointer: no position is open).
\<close>

type_synonym acct_state = "Position list \<times> Position option"

definition processOrder ::
  "float_arith \<Rightarrow> okx_client \<Rightarrow> string \<Rightarrow> acct_state \<Rightarrow> Order \<Rightarrow> error + acct_state" where
  "processOrder A okx targetMint st order =
     (let positions = fst st; currentPosition = snd st;
          isBuy = (Mint (BuyToken order) = targetMint);
          isSell = (Mint (SellToken order) = targetMint)
      in if \<not> isBuy \<and> \<not> isSell then Inr st
         else
           (case parseTokenAmount A order isBuy of
              Inl err \<Rightarrow> Inl err
            | Inr amount \<Rightarrow>
                (case getTokenUSDValue A okx order isBuy amount of
                   Inl err \<Rightarrow> Inl err
                 | Inr (usdValue, price) \<Rightarrow>
                     (let cur1 = (if currentPosition = None \<and> isBuy then Some newPosition
                                  else currentPosition);
                          cur2 = (case cur1 of
                                    Some p \<Rightarrow> if isBuy then Some (applyBuy A p order amount usdValue)
                                              else cur1
                                  | None \<Rightarrow> cur1)
                      in case cur2 of
                           Some p \<Rightarrow>
                             if isSell then
                               (let p' = applySell A p order amount usdValue
                                in if fle (TotalAmount p') (Fin 0)
                                   then Inr (positions @ [p'\<lparr>Position.IsClosed := True\<rparr>], None)
                                   else Inr (positions, Some p'))
                             else Inr (positions, cur2)
                         | None \<Rightarrow> Inr (positions, cur2)))))"

fun pnlLoop ::
  "float_arith \<Rightarrow> okx_client \<Rightarrow> string \<Rightarrow> acct_state \<Rightarrow> Order list \<Rightarrow> error + acct_state" where
  "pnlLoop A okx targetMint st [] = Inr st"
| "pnlLoop A okx targetMint st (order # orders) =
     (case processOrder A okx targetMint st order of
        Inl err \<Rightarrow> Inl err
      | Inr st' \<Rightarrow> pnlLoop A okx targetMint st' orders)"

text \<open>\<open>truncateToDecimals\<close>; the Go \<open>int\<close> argument is kept as an \<open>int\<close>.\<close>

definition truncateToDecimals :: "float_arith \<Rightarrow> float64 \<Rightarrow> int \<Rightarrow> float64" where
  "truncateToDecimals A v decimals =
     (if decimals \<le> 0 then math_Trunc v
      else (let shift = f_pow10 A (nat decimals)
            in f_div A (math_Trunc (f_mul A v shift)) shift))"

text \<open>
  \<open>fmt.Sprintf("%.2f%%", x)\<close>: the decimal expansion, with two fractional digits, of the
  number that \<open>x\<close> denotes, rounded to nearest with ties to even, then a percent sign.
\<close>

definition round_half_even :: "real \<Rightarrow> int" where
  "round_half_even r =
     (let f = \<lfloor>r\<rfloor>; d = r - of_int f
      in if d < 1 / 2 then f else if 1 / 2 < d then f + 1 else if even f then f else f + 1)"

definition two_digits :: "nat \<Rightarrow> string" where
  "two_digits n = [''0123456789'' ! (n div 10 mod 10), ''0123456789'' ! (n mod 10)]"

definition hundredths :: "real \<Rightarrow> nat" where
  "hundredths x = nat (round_half_even (\<bar>x\<bar> * 100))"

fun Sprintf_2f_pct :: "float64 \<Rightarrow> string" where
  "Sprintf_2f_pct (Fin x) =
     (let q = hundredths x
      in (if x < 0 then ''-'' else []) @ dec_digits (q div 100) @ ''.'' @ two_digits (q mod 100)
         @ ''%'')"
| "Sprintf_2f_pct PosInf = ''+Inf%''"
| "Sprintf_2f_pct NegInf = ''-Inf%''"
| "Sprintf_2f_pct NaN = ''NaN%''"

definition pnlPercentage :: "float_arith \<Rightarrow> Position \<Rightarrow> float64" where
  "pnlPercentage A pos =
     (if flt (Fin 0) (TotalInvestment pos)
      then f_mul A (f_div A (RealizedPnL pos) (TotalInvestment pos)) (Fin 100)
      else Fin 0)"

definition positionResult :: "float_arith \<Rightarrow> float64 \<Rightarrow> Position \<Rightarrow> PnLResult" where
  "positionResult A currentPrice pos =
     \<lparr>AverageCost = truncateToDecimals A (Position.AverageCost pos) 9,
      ProfitLossPercentage = Sprintf_2f_pct (pnlPercentage A pos),
      ProfitLossValue = truncateToDecimals A (RealizedPnL pos) 10,
      UnrealizedProfitLossValue =
        (if \<not> Position.IsClosed pos
         then truncateToDecimals A
                (f_prod_sub A (TotalAmount pos) currentPrice (TotalCostUSD pos)) 2
         else Fin 0),
      IsClosed = Position.IsClosed pos\<rparr>"

definition calculatePositionPnL ::
  "float_arith \<Rightarrow> okx_client \<Rightarrow> int \<Rightarrow> Position list \<Rightarrow> string
     \<Rightarrow> error + PnLResult list" where
  "calculatePositionPnL A okx nowMs positions targetMint =
     (case getCurrentTokenPrice okx nowMs targetMint of
        Inl err \<Rightarrow> Inl err
      | Inr currentPrice \<Rightarrow> Inr (map (positionResult A currentPrice) positions))"

definition calculatePnL ::
  "float_arith \<Rightarrow> okx_client \<Rightarrow> int \<Rightarrow> Order list \<Rightarrow> string \<Rightarrow> error + PnLResult list" where
  "calculatePnL A okx nowMs orders targetMint =
     (case pnlLoop A okx targetMint ([], None) orders of
        Inl err \<Rightarrow> Inl err
      | Inr (positions, currentPosition) \<Rightarrow>
          calculatePositionPnL A okx nowMs
            (case currentPosition of None \<Rightarrow> positions | Some p \<Rightarrow> positions @ [p])
            targetMint)"

subsection \<open>The position an order leaves behind\<close>

text \<open>
  After an order the position it worked on is the open one or, when the order has closed
  it, the last of the closed positions.
\<close>

definition positionLeft :: "acct_state \<Rightarrow> Position option" where
  "positionLeft st =
     (case snd st of
        Some p \<Rightarrow> Some p
      | None \<Rightarrow> (if fst st = [] then None else Some (last (fst st))))"

subsection \<open>Truncation and rounding, as properties\<close>




section \<open>Assembling the orders\<close>

record JupiterSwapEventData =
  Amm :: pubkey
  InputMint :: pubkey
  InputAmount :: "64 word"
  OutputMint :: pubkey
  OutputAmount :: "64 word"

text \<open>
  \<open>borsh.Deserialize(&data, bytes)\<close> is a library call and a parameter of the model:
  \<open>None\<close> is its error.
\<close>

type_synonym deserializer = "8 word list \<Rightarrow> JupiterSwapEventData option"

definition decodeEvent :: "deserializer \<Rightarrow> heap \<Rightarrow> nat \<Rightarrow> error + JupiterSwapEventData" where
  "decodeEvent deserialize h node =
     (let nodeData = StackInstructionNode.Data (h ! node)
      in if length nodeData < 16 then Inl PanicIndexOutOfRange
         else (case deserialize (drop 16 nodeData) of
                 None \<Rightarrow> Inl (ErrWrapped ''DecodeJupiter Deserialize(JupiterSwapEventData)'' ErrDecode)
               | Some data \<Rightarrow> Inr data))"

text \<open>
  The body of the loop over the event nodes: the first node gives the sell mint, the last
  one the buy mint; \<open>n\<close> is \<open>len(event)\<close>. The state is the pair (buy mint, sell mint).
\<close>

definition eventStep ::
  "deserializer \<Rightarrow> heap \<Rightarrow> nat \<Rightarrow> nat \<Rightarrow> nat \<Rightarrow> string \<times> string \<Rightarrow> error + (string \<times> string)" where
  "eventStep deserialize h n i node mints =
     (case (if i = 0
            then (case decodeEvent deserialize h node of
                    Inl e \<Rightarrow> Inl e
                  | Inr data \<Rightarrow> Inr (InputMint data))
            else Inr (snd mints)) of
        Inl e \<Rightarrow> Inl e
      | Inr sellTokenMint \<Rightarrow>
          (case (if int i = int n - 1
                 then (case decodeEvent deserialize h node of
                         Inl e \<Rightarrow> Inl e
                       | Inr data \<Rightarrow> Inr (OutputMint data))
                 else Inr (fst mints)) of
             Inl e \<Rightarrow> Inl e
           | Inr buyTokenMint \<Rightarrow> Inr (buyTokenMint, sellTokenMint)))"

fun eventLoop ::
  "deserializer \<Rightarrow> heap \<Rightarrow> nat \<Rightarrow> nat \<Rightarrow> nat list \<Rightarrow> string \<times> string
     \<Rightarrow> error + (string \<times> string)" where
  "eventLoop deserialize h n i [] mints = Inr mints"
| "eventLoop deserialize h n i (node # rest) mints =
     (case eventStep deserialize h n i node mints of
        Inl e \<Rightarrow> Inl e
      | Inr mints' \<Rightarrow> eventLoop deserialize h n (i + 1) rest mints')"

definition normalizeMint :: "string \<Rightarrow> string" where
  "normalizeMint m =
     (if m = ''So11111111111111111111111111111111111111112'' then ''SOL'' else m)"

text \<open>
  \<open>tokenChangeMap[user][asset]\<close> is a nil pointer when the wallet has no entry for the
  asset; the fields of the result are read right after.
\<close>

definition lookupChange ::
  "((string \<times> string) \<times> TokenChange) list \<Rightarrow> string \<Rightarrow> string \<Rightarrow> error + TokenChange" where
  "lookupChange tokenChangeMap user asset =
     (case map_of tokenChangeMap (user, asset) of
        None \<Rightarrow> Inl PanicNilPointer
      | Some change \<Rightarrow> Inr change)"

definition orderToken :: "string \<Rightarrow> TokenChange \<Rightarrow> OrderTokenInfo" where
  "orderToken mint change =
     \<lparr>Mint = mint,
      UiTokenAmount = \<lparr>UiTokenAmount.Amount = TokenChange.Amount change,
                       UiTokenAmount.Decimals = TokenChange.Decimals change,
                       UiTokenAmount.UiAmountString = TokenChange.UiAmountString change\<rparr>\<rparr>"

text \<open>
  The two branches that build an order. In the second branch the sell-side change is
  looked up under \<open>buyTokenMint\<close>, as in the source.
\<close>

definition makeOrder ::
  "Transaction \<Rightarrow> string \<Rightarrow> string \<Rightarrow> ((string \<times> string) \<times> TokenChange) list
     \<Rightarrow> string \<Rightarrow> string \<Rightarrow> error + Order option" where
  "makeOrder tx user mint tokenChangeMap buyTokenMint sellTokenMint =
     (if sellTokenMint = mint then
        (case lookupChange tokenChangeMap user mint of
           Inl e \<Rightarrow> Inl e
         | Inr sellTokenChange \<Rightarrow>
             (case lookupChange tokenChangeMap user buyTokenMint of
                Inl e \<Rightarrow> Inl e
              | Inr buyTokenChange \<Rightarrow>
                  Inr (Some \<lparr>Signature = Transaction.Signature tx,
                             Slot = Transaction.Slot tx,
                             BlockTime = Transaction.BlockTime tx,
                             BuyToken = orderToken buyTokenMint buyTokenChange,
                             SellToken = orderToken sellTokenMint sellTokenChange\<rparr>)))
      else if buyTokenMint = mint then
        (case lookupChange tokenChangeMap user mint of
           Inl e \<Rightarrow> Inl e
         | Inr buyTokenChange \<Rightarrow>
             (case lookupChange tokenChangeMap user buyTokenMint of
                Inl e \<Rightarrow> Inl e
              | Inr sellTokenChange \<Rightarrow>
                  Inr (Some \<lparr>Signature = Transaction.Signature tx,
                             Slot = Transaction.Slot tx,
                             BlockTime = Transaction.BlockTime tx,
                             BuyToken = orderToken buyTokenMint buyTokenChange,
                             SellToken = orderToken sellTokenMint sellTokenChange\<rparr>)))
      else Inr None)"

text \<open>
  An error return of a callee is a value the loop can skip; a panic of a callee unwinds
  the loop as well.
\<close>

definition unwinds :: "error \<Rightarrow> bool" where
  "unwinds e = (is_panic e \<or> e = Diverged)"

text \<open>
  The body of the loop of \<open>fetchJupiterOrders\<close> for one transaction: \<open>Inl\<close> leaves the
  function, \<open>Inr None\<close> is \<open>continue\<close> (or no order), \<open>Inr (Some order)\<close> appends the order.
\<close>

definition processTx ::
  "nat \<Rightarrow> deserializer \<Rightarrow> pubkey \<Rightarrow> string \<Rightarrow> string \<Rightarrow> Transaction \<Rightarrow> error + Order option" where
  "processTx steps deserialize jupiterPID user mint tx =
     (case GetFullAccountKeys (RawTx tx) of
        Inl e \<Rightarrow> if unwinds e then Inl e else Inr None
      | Inr fullAccountKeys \<Rightarrow>
          (case ParseInstructionTreeByStackHeight steps (RawTx tx) of
             Inl e \<Rightarrow> if unwinds e then Inl e else Inr None
           | Inr (h, insTree) \<Rightarrow>
               (case FindNodesByProgramID steps fullAccountKeys h insTree jupiterPID of
                  Inl e \<Rightarrow> Inl e
                | Inr (route, event) \<Rightarrow>
                    if 1 < length route then Inr None
                    else if length route = 0 then Inr None
                    else
                      (case GetBalanceChanges (RawTx tx) fullAccountKeys of
                         Inl e \<Rightarrow> Inl e
                       | Inr (tokenMap, tokenChangeMap) \<Rightarrow>
                           (case eventLoop deserialize h (length event) 0 event ([], []) of
                              Inl e \<Rightarrow> Inl e
                            | Inr (buyTokenMint, sellTokenMint) \<Rightarrow>
                                makeOrder tx user mint tokenChangeMap
                                  (normalizeMint buyTokenMint) (normalizeMint sellTokenMint))))))"

fun ordersLoop ::
  "nat \<Rightarrow> deserializer \<Rightarrow> pubkey \<Rightarrow> string \<Rightarrow> string \<Rightarrow> Transaction option list \<Rightarrow> Order list
     \<Rightarrow> error + Order list" where
  "ordersLoop steps deserialize jupiterPID user mint [] orders = Inr orders"
| "ordersLoop steps deserialize jupiterPID user mint (tx # txList) orders =
     (case tx of
        None \<Rightarrow> Inl PanicNilPointer
      | Some t \<Rightarrow>
          (case processTx steps deserialize jupiterPID user mint t of
             Inl e \<Rightarrow> Inl e
           | Inr None \<Rightarrow> ordersLoop steps deserialize jupiterPID user mint txList orders
           | Inr (Some newOrder) \<Rightarrow>
               ordersLoop steps deserialize jupiterPID user mint txList (orders @ [newOrder])))"

definition fetchJupiterOrders ::
  "nat \<Rightarrow> deserializer \<Rightarrow> pubkey \<Rightarrow> Transaction option list \<Rightarrow> string \<Rightarrow> string
     \<Rightarrow> error + Order list" where
  "fetchJupiterOrders steps deserialize jupiterPID txList user mint =
     (if txList = [] then Inr []
      else ordersLoop steps deserialize jupiterPID user mint txList [])"


section \<open>Example data\<close>

subsection \<open>Arithmetic without rounding\<close>

text \<open>
  The examples are evaluated with the arithmetic of the denoted numbers. In every example
  whose result shows a number, each intermediate value is an integer or a fraction with a
  small power of two as its denominator, so that the exact result of each operation is a
  \<open>float64\<close> and IEEE 754 arithmetic (fused or not) returns that result unrounded.
\<close>

fun fneg :: "float64 \<Rightarrow> float64" where
  "fneg (Fin x) = Fin (- x)"
| "fneg PosInf = NegInf"
| "fneg NegInf = PosInf"
| "fneg NaN = NaN"

fun fadd :: "float64 \<Rightarrow> float64 \<Rightarrow> float64" where
  "fadd (Fin x) (Fin y) = Fin (x + y)"
| "fadd NaN _ = NaN"
| "fadd _ NaN = NaN"
| "fadd PosInf NegInf = NaN"
| "fadd NegInf PosInf = NaN"
| "fadd PosInf _ = PosInf"
| "fadd _ PosInf = PosInf"
| "fadd NegInf _ = NegInf"
| "fadd _ NegInf = NegInf"

definition fsub :: "float64 \<Rightarrow> float64 \<Rightarrow> float64" where
  "fsub a b = fadd a (fneg b)"

definition inf_of_sign :: "real \<Rightarrow> float64" where
  "inf_of_sign s = (if s = 0 then NaN else if 0 < s then PosInf else NegInf)"

fun fmul :: "float64 \<Rightarrow> float64 \<Rightarrow> float64" where
  "fmul (Fin x) (Fin y) = Fin (x * y)"
| "fmul NaN _ = NaN"
| "fmul _ NaN = NaN"
| "fmul (Fin x) PosInf = inf_of_sign x"
| "fmul (Fin x) NegInf = inf_of_sign (- x)"
| "fmul PosInf (Fin y) = inf_of_sign y"
| "fmul NegInf (Fin y) = inf_of_sign (- y)"
| "fmul PosInf PosInf = PosInf"
| "fmul PosInf NegInf = NegInf"
| "fmul NegInf PosInf = NegInf"
| "fmul NegInf NegInf = PosInf"

fun fdiv :: "float64 \<Rightarrow> float64 \<Rightarrow> float64" where
  "fdiv (Fin x) (Fin y) = (if y = 0 then inf_of_sign x else Fin (x / y))"
| "fdiv NaN _ = NaN"
| "fdiv _ NaN = NaN"
| "fdiv (Fin x) _ = Fin 0"
| "fdiv PosInf (Fin y) = (if 0 \<le> y then PosInf else NegInf)"
| "fdiv NegInf (Fin y) = (if 0 \<le> y then NegInf else PosInf)"
| "fdiv _ _ = NaN"

definition exactArith :: float_arith where
  "exactArith =
     \<lparr>f_add = fadd, f_sub = fsub, f_mul = fmul, f_div = fdiv,
      f_sub_prod = (\<lambda>a b c. fsub a (fmul b c)),
      f_prod_sub = (\<lambda>a b c. fsub (fmul a b) c),
      f_of_int64 = (\<lambda>i. Fin (of_int i)),
      f_pow10 = (\<lambda>d. Fin (10 ^ d))\<rparr>"

subsection \<open>Orders and prices\<close>

text \<open>Orders, candles and a table-driven price client used in the concrete examples.\<close>

definition exampleOrder ::
  "string \<Rightarrow> time \<Rightarrow> string \<Rightarrow> string \<Rightarrow> string \<Rightarrow> string \<Rightarrow> Order" where
  "exampleOrder sig t buyMint buyAmount sellMint sellAmount =
     \<lparr>Signature = sig, Slot = 1, BlockTime = t,
      BuyToken = \<lparr>Mint = buyMint,
        UiTokenAmount = \<lparr>UiTokenAmount.Amount = buyAmount, UiTokenAmount.Decimals = 0,
                          UiTokenAmount.UiAmountString = buyAmount\<rparr>\<rparr>,
      SellToken = \<lparr>Mint = sellMint,
        UiTokenAmount = \<lparr>UiTokenAmount.Amount = sellAmount, UiTokenAmount.Decimals = 0,
                          UiTokenAmount.UiAmountString = sellAmount\<rparr>\<rparr>\<rparr>"

definition candle :: "real \<Rightarrow> MarketRecord" where
  "candle c =
     \<lparr>Timestamp = 0, Open = Fin c, High = Fin c, Low = Fin c, Close = Fin c,
      Volume = Fin 0, Turnover = Fin 0, IsComplete = 1\<rparr>"

definition tableOkx :: "(string \<times> real) list \<Rightarrow> okx_client" where
  "tableOkx table mint stime =
     (case map_of table stime of
        None \<Rightarrow> OkxError ''no data''
      | Some c \<Rightarrow> OkxRecords [candle c])"

definition examplePrices :: "(string \<times> real) list" where
  "examplePrices =
     [(''1000'', 1), (''2000'', 517 / 512), (''3000'', 10), (''4000'', 2), (''9000'', 3),
      (''9500'', 66849 / 65536)]"

definition buy512 :: Order where
  "buy512 = exampleOrder ''sigA'' 1 ''TOK'' ''512'' ''SOL'' ''3''"

definition sell512 :: Order where
  "sell512 = exampleOrder ''sigB'' 2 ''SOL'' ''3'' ''TOK'' ''512''"

definition sellHuge :: Order where
  "sellHuge = exampleOrder ''sigC'' 1 ''SOL'' ''3'' ''TOK'' ''9223372036854775808''"

definition sell7 :: Order where
  "sell7 = exampleOrder ''sigD'' 1 ''SOL'' ''3'' ''TOK'' ''7''"

definition buyOneAt10 :: Order where
  "buyOneAt10 = exampleOrder ''sigE'' 3 ''TOK'' ''1'' ''SOL'' ''3''"

definition buyOneAt2 :: Order where
  "buyOneAt2 = exampleOrder ''sigF'' 4 ''TOK'' ''1'' ''SOL'' ''3''"

text \<open>
  A sell at a time for which the price table has no entry, an order whose route starts and
  ends at the target mint, a price client that answers every request with an empty list
  of candles, and one that cannot read any reply.
\<close>

definition sellUnpriced :: Order where
  "sellUnpriced = exampleOrder ''sigG'' 5 ''SOL'' ''3'' ''TOK'' ''7''"

definition roundTrip7 :: Order where
  "roundTrip7 = exampleOrder ''sigH'' 1 ''TOK'' ''7'' ''TOK'' ''7''"

definition fatalOkx :: okx_client where
  "fatalOkx mint stime = OkxFatal"

definition emptyOkx :: okx_client where
  "emptyOkx mint stime = OkxRecords []"

text \<open>Projections of a loop result, for stating examples.\<close>

definition currentAverageCost :: "error + acct_state \<Rightarrow> float64 option" where
  "currentAverageCost r =
     (case r of Inl _ \<Rightarrow> None
      | Inr st \<Rightarrow> (case snd st of None \<Rightarrow> None | Some p \<Rightarrow> Some (Position.AverageCost p)))"


definition positionAfterBuy512 :: Position where
  "positionAfterBuy512 = applyBuy exactArith newPosition buy512 (Fin 512) (Fin 512)"

definition positionAfterBuy10 :: Position where
  "positionAfterBuy10 = applyBuy exactArith newPosition buyOneAt10 (Fin 1) (Fin 10)"


subsection \<open>Transactions\<close>

text \<open>Three transactions upstream, one of them already cached and without a block time.\<close>

definition exampleRaw :: "64 word \<Rightarrow> int option \<Rightarrow> GetTransactionResult" where
  "exampleRaw slot blockTime =
     \<lparr>GetTransactionResult.Slot = slot, GetTransactionResult.BlockTime = blockTime,
      Transaction = None, Meta = None\<rparr>"

definition exampleUpstream :: upstream where
  "exampleUpstream =
     \<lparr>PublicKeyFromBase58 = (\<lambda>s. Inr s),
      GetSignaturesForAddressWithOpts =
        (\<lambda>addr before limit. if before = None then Inr [''s1'', ''s2'', ''s3''] else Inr []),
      GetTransaction =
        (\<lambda>sig. if sig = ''s1'' then Inr (exampleRaw 30 (Some 200))
                else if sig = ''s2'' then Inr (exampleRaw 20 (Some 100))
                else if sig = ''s3'' then Inr (exampleRaw 10 None)
                else Inl ''not found'')\<rparr>"

definition exampleTx :: "string \<Rightarrow> 64 word \<Rightarrow> time \<Rightarrow> int option \<Rightarrow> Transaction" where
  "exampleTx sig slot t blockTime =
     \<lparr>Transaction.Signature = sig, Transaction.Slot = slot, Transaction.BlockTime = t,
      RawTx = exampleRaw slot blockTime\<rparr>"

definition exampleCache :: cache where
  "exampleCache = [''s3'' \<mapsto> exampleTx ''s3'' 10 zeroTime None]"

text \<open>
  A swap transaction of the wallet: a first top-level instruction of another program, the
  aggregator's route instruction, and one swap event emitted below it. The payload of the
  event, the native balances and the token balances of the wallet vary.
\<close>

definition exampleDeserialize :: deserializer where
  "exampleDeserialize payload =
     (if payload = [7]
      then Some \<lparr>Amm = ''pool'', InputMint = ''So11111111111111111111111111111111111111112'',
                 InputAmount = 5, OutputMint = ''TOK'', OutputAmount = 100\<rparr>
      else if payload = [9]
      then Some \<lparr>Amm = ''pool'', InputMint = ''TOK'', InputAmount = 100,
                 OutputMint = ''So11111111111111111111111111111111111111112'', OutputAmount = 5\<rparr>
      else None)"

definition exampleTokenBalance :: "string \<Rightarrow> TokenBalance" where
  "exampleTokenBalance amount =
     \<lparr>AccountIndex = 2, Owner = Some ''wallet'', Mint = ''TOK'',
      UiTokenAmount = Some \<lparr>UiTokenAmount.Amount = amount, UiTokenAmount.Decimals = 6,
                             UiTokenAmount.UiAmountString = []\<rparr>\<rparr>"

definition exampleMessage :: Message where
  "exampleMessage =
     \<lparr>AccountKeys = [''wallet'', ''JUP'', ''tokenAccount''],
      Instructions =
        [\<lparr>CompiledInstruction.ProgramIDIndex = 2, Accounts = [], Data = [1, 2]\<rparr>,
         \<lparr>CompiledInstruction.ProgramIDIndex = 1, Accounts = [0, 2],
          Data = routeTag @ replicate 8 0\<rparr>],
      IsLegacy = True\<rparr>"

definition exampleMeta ::
  "16 word \<Rightarrow> 8 word list \<Rightarrow> 64 word \<Rightarrow> 64 word \<Rightarrow> string \<Rightarrow> string \<Rightarrow> TransactionMeta" where
  "exampleMeta groupIndex payload preSol postSol preTok postTok =
     \<lparr>PreBalances = [preSol, 0, 0], PostBalances = [postSol, 0, 0],
      PreTokenBalances = [exampleTokenBalance preTok],
      PostTokenBalances = [exampleTokenBalance postTok],
      InnerInstructions =
        [\<lparr>InnerInstruction.Index = groupIndex,
          Instructions =
            [\<lparr>CompiledInstruction.ProgramIDIndex = 1, Accounts = [],
              Data = eventTag @ eventTag2 @ payload\<rparr>]\<rparr>],
      LoadedAddresses = \<lparr>ReadOnly = [], Writable = []\<rparr>\<rparr>"

definition exampleSwapRaw ::
  "8 word list \<Rightarrow> 64 word \<Rightarrow> 64 word \<Rightarrow> string \<Rightarrow> string \<Rightarrow> GetTransactionResult" where
  "exampleSwapRaw payload preSol postSol preTok postTok =
     \<lparr>GetTransactionResult.Slot = 7, GetTransactionResult.BlockTime = Some 1,
      Transaction = Some (Inr exampleMessage),
      Meta = Some (exampleMeta 1 payload preSol postSol preTok postTok)\<rparr>"

definition exampleSwapTx ::
  "string \<Rightarrow> 8 word list \<Rightarrow> 64 word \<Rightarrow> 64 word \<Rightarrow> string \<Rightarrow> string \<Rightarrow> Transaction" where
  "exampleSwapTx sig payload preSol postSol preTok postTok =
     \<lparr>Transaction.Signature = sig, Transaction.Slot = 7, Transaction.BlockTime = 1,
      RawTx = exampleSwapRaw payload preSol postSol preTok postTok\<rparr>"





text \<open>The heap that reconstruction builds for \<open>exampleSwapRaw\<close>; node 3 is the synthetic root.\<close>

definition exampleHeap :: "8 word list \<Rightarrow> heap" where
  "exampleHeap payload =
     [\<lparr>StackInstructionNode.Index = 0, StackHeight = 0, ProgramIDIndex = 2, Data = [1, 2],
       Accounts = [], Parent = Some 3, Children = [], InnerIndexes = []\<rparr>,
      \<lparr>StackInstructionNode.Index = 1, StackHeight = 0, ProgramIDIndex = 1,
       Data = routeTag @ replicate 8 0, Accounts = [0, 2], Parent = Some 3, Children = [2],
       InnerIndexes = []\<rparr>,
      \<lparr>StackInstructionNode.Index = 2, StackHeight = 1, ProgramIDIndex = 1,
       Data = eventTag @ eventTag2 @ payload, Accounts = [], Parent = Some 1, Children = [],
       InnerIndexes = []\<rparr>,
      \<lparr>StackInstructionNode.Index = - 1, StackHeight = 0, ProgramIDIndex = 0, Data = [],
       Accounts = [], Parent = None, Children = [0, 1], InnerIndexes = []\<rparr>]"

definition exampleChange :: "string \<Rightarrow> 8 word \<Rightarrow> string \<Rightarrow> TokenChange" where
  "exampleChange amount decimals ui =
     \<lparr>TokenChange.Amount = amount, Decimals = decimals, UiAmountString = ui, UiAmount = Fin 0\<rparr>"

text \<open>
  The balance changes of the transaction in which the wallet pays 5 lamports and receives
  100 units of \<open>TOK\<close>, and the order assembled from it for the target mint \<open>TOK\<close>.
\<close>

definition exampleChanges :: "((string \<times> string) \<times> TokenChange) list" where
  "exampleChanges =
     [((''wallet'', ''TOK''), exampleChange ''100'' 6 ''0.000100''),
      ((''wallet'', ''SOL''), exampleChange ''5'' 9 ''0.000000005''),
      ((''JUP'', ''SOL''), exampleChange ''0'' 9 ''0.000000000''),
      ((''tokenAccount'', ''SOL''), exampleChange ''0'' 9 ''0.000000000'')]"

definition exampleBuyOrder :: "string \<Rightarrow> Order" where
  "exampleBuyOrder sig =
     \<lparr>Signature = sig, Slot = 7, BlockTime = 1,
      BuyToken = orderToken ''TOK'' (exampleChange ''100'' 6 ''0.000100''),
      SellToken = orderToken ''SOL'' (exampleChange ''100'' 6 ''0.000100'')\<rparr>"

text \<open>The same when the wallet receives \<open>2^63\<close> units of \<open>TOK\<close>.\<close>

definition exampleHugeChanges :: "((string \<times> string) \<times> TokenChange) list" where
  "exampleHugeChanges =
     [((''wallet'', ''TOK''),
       exampleChange ''9223372036854775808'' 6 ''9223372036854.775808''),
      ((''wallet'', ''SOL''), exampleChange ''5'' 9 ''0.000000005''),
      ((''JUP'', ''SOL''), exampleChange ''0'' 9 ''0.000000000''),
      ((''tokenAccount'', ''SOL''), exampleChange ''0'' 9 ''0.000000000'')]"

definition exampleHugeOrder :: "string \<Rightarrow> Order" where
  "exampleHugeOrder sig =
     \<lparr>Signature = sig, Slot = 7, BlockTime = 1,
      BuyToken = orderToken ''TOK''
        (exampleChange ''9223372036854775808'' 6 ''9223372036854.775808''),
      SellToken = orderToken ''SOL''
        (exampleChange ''9223372036854775808'' 6 ''9223372036854.775808'')\<rparr>"

section \<open>Evaluating the accountant on the example data\<close>

lemmas acct_eval_defs =
  calculatePnL_def processOrder_def parseTokenAmount_def strconv_ParseInt_def digit_val_def
  getTokenUSDValue_def getHistoricalTokenPrice_def tableOkx_def examplePrices_def candle_def
  exampleOrder_def FormatInt_def UnixMilli_def dec_digits.simps exactArith_def newPosition_def
  applyBuy_def applySell_def fsub_def calculatePositionPnL_def getCurrentTokenPrice_def
  positionResult_def truncateToDecimals_def trunc_real_def pnlPercentage_def hundredths_def
  round_half_even_def two_digits_def Let_def buy512_def sell512_def sellHuge_def sell7_def
  buyOneAt10_def buyOneAt2_def sellUnpriced_def roundTrip7_def emptyOkx_def fatalOkx_def
  inf_of_sign_def

text \<open>
  Buying 512 units at 1 USD and selling them at 517/512 USD closes the position with a
  realized profit of 5 USD, that is 0.9765625 percent of the 512 USD invested.
\<close>

lemma example_closed_position:
  "calculatePnL exactArith (tableOkx examplePrices) 9000 [buy512, sell512] ''TOK'' =
     Inr [\<lparr>AverageCost = Fin 1, ProfitLossPercentage = ''0.98%'', ProfitLossValue = Fin 5,
           UnrealizedProfitLossValue = Fin 0, IsClosed = True\<rparr>]"
  by (simp add: acct_eval_defs)


section \<open>Decimal strings: formatting and parsing\<close>

lemma digit_val_digit: "d < 10 \<Longrightarrow> digit_val (''0123456789'' ! d) = Some d"
proof -
  assume "d < 10"
  then have "d \<in> {0,1,2,3,4,5,6,7,8,9}" by auto
  then show ?thesis by (auto simp: digit_val_def)
qed

lemma parse_uint_append:
  "parse_uint (xs @ ys) acc = (case parse_uint xs acc of None \<Rightarrow> None | Some a \<Rightarrow> parse_uint ys a)"
  by (induction xs arbitrary: acc) (auto split: option.splits)

lemma parse_uint_dec_digits: "parse_uint (dec_digits n) 0 = Some n"
proof (induction n rule: dec_digits.induct)
  case (1 n)
  show ?case
  proof (cases "n < 10")
    case True
    then show ?thesis by (subst dec_digits.simps) (simp add: digit_val_digit)
  next
    case False
    with 1 have "parse_uint (dec_digits (n div 10)) 0 = Some (n div 10)" by simp
    with False show ?thesis
      by (subst dec_digits.simps) (simp add: parse_uint_append digit_val_digit)
  qed
qed

lemma dec_digits_nonempty: "dec_digits n \<noteq> []"
  by (subst dec_digits.simps) simp

lemma dec_digits_hd_digit: "hd (dec_digits n) \<in> set ''0123456789''"
proof (induction n rule: dec_digits.induct)
  case (1 n)
  show ?case
  proof (cases "n < 10")
    case True
    then have "n \<in> {0,1,2,3,4,5,6,7,8,9}" by auto
    then show ?thesis by (subst dec_digits.simps) auto
  next
    case False
    with 1 show ?thesis
      by (subst dec_digits.simps) (simp add: dec_digits_nonempty)
  qed
qed

lemma ParseInt_FormatInt_out_of_range:
  assumes "2 ^ 63 \<le> n"
  shows "strconv_ParseInt (FormatInt n) = Inl ErrRange"
proof -
  from assms have n: "0 \<le> n" by (smt (verit) zero_le_power)
  obtain c cs where cs: "dec_digits (nat n) = c # cs"
    using dec_digits_nonempty [of "nat n"] by (cases "dec_digits (nat n)") auto
  with dec_digits_hd_digit [of "nat n"] have c: "c \<noteq> CHR ''-''" "c \<noteq> CHR ''+''" by auto
  have "parse_uint (c # cs) 0 = Some (nat n)"
    using parse_uint_dec_digits [of "nat n"] cs by simp
  moreover have "(2::nat) ^ 63 \<le> nat n" using assms n by (simp add: le_nat_iff)
  ultimately show ?thesis
    using n c cs by (simp add: strconv_ParseInt_def FormatInt_def del: parse_uint.simps)
qed

section \<open>Truncation and rounding\<close>






section \<open>Closed positions carry no unrealized PnL\<close>

text \<open>
  Claim C7. For every sequence of orders, every result that the accountant reports with
  \<open>isClosed = true\<close> has \<open>unrealizedProfitLossValue = 0\<close>.
\<close>

theorem closed_position_has_no_unrealized_pnl:
  assumes "calculatePnL A okx nowMs orders targetMint = Inr results"
    and "r \<in> set results"
    and "PnLResult.IsClosed r"
  shows "UnrealizedProfitLossValue r = Fin 0"
proof -
  from assms(1) obtain currentPrice positions where
    "results = map (positionResult A currentPrice) positions"
    by (auto simp: calculatePnL_def calculatePositionPnL_def split: sum.splits prod.splits)
  with assms(2) obtain pos where r: "r = positionResult A currentPrice pos"
    by auto
  with assms(3) have "Position.IsClosed pos"
    by (simp add: positionResult_def)
  with r show ?thesis
    by (simp add: positionResult_def)
qed

theorem closed_position_has_no_unrealized_pnl_witness:
  "calculatePnL exactArith (tableOkx examplePrices) 9000 [buy512, sell512] ''TOK'' =
     Inr [\<lparr>AverageCost = Fin 1, ProfitLossPercentage = ''0.98%'', ProfitLossValue = Fin 5,
           UnrealizedProfitLossValue = Fin 0, IsClosed = True\<rparr>]
   \<and> PnLResult.IsClosed \<lparr>AverageCost = Fin 1, ProfitLossPercentage = ''0.98%'',
        ProfitLossValue = Fin 5, UnrealizedProfitLossValue = Fin 0, IsClosed = True\<rparr>
   \<and> UnrealizedProfitLossValue \<lparr>AverageCost = Fin 1, ProfitLossPercentage = ''0.98%'',
        ProfitLossValue = Fin 5, UnrealizedProfitLossValue = Fin 0, IsClosed = True\<rparr> = Fin 0"
  using example_closed_position
    closed_position_has_no_unrealized_pnl [OF example_closed_position,
      of "\<lparr>AverageCost = Fin 1, ProfitLossPercentage = ''0.98%'', ProfitLossValue = Fin 5,
           UnrealizedProfitLossValue = Fin 0, IsClosed = True\<rparr>"]
  by simp

section \<open>A sell order while no position is open\<close>







section \<open>The running average cost\<close>

text \<open>
  The average cost is not monotone across buys: buying one unit at 10 USD and then one
  unit at 2 USD moves it from 10 down to 6.
\<close>

theorem average_cost_can_decrease_on_buy:
  "currentAverageCost
       (pnlLoop exactArith (tableOkx examplePrices) ''TOK'' ([], None) [buyOneAt10])
     = Some (Fin 10)
   \<and> currentAverageCost
       (pnlLoop exactArith (tableOkx examplePrices) ''TOK'' ([], None) [buyOneAt10, buyOneAt2])
     = Some (Fin 6)"
  by (simp add: acct_eval_defs currentAverageCost_def)

lemma processOrder_sell_keeps_average:
  assumes "Mint (BuyToken order) \<noteq> targetMint"
    and "processOrder A okx targetMint (positions, Some p) order = Inr st'"
  shows "\<exists>p'. positionLeft st' = Some p' \<and> Position.AverageCost p' = Position.AverageCost p"
  using assms
  by (auto simp: processOrder_def Let_def applySell_def positionLeft_def
           split: if_splits sum.splits prod.splits)

lemma processOrder_buy_sets_average:
  assumes "Mint (BuyToken order) = targetMint"
    and "processOrder A okx targetMint (positions, Some p) order = Inr st'"
  shows "\<exists>amount usdValue price p'.
           parseTokenAmount A order True = Inr amount
         \<and> getTokenUSDValue A okx order True amount = Inr (usdValue, price)
         \<and> positionLeft st' = Some p'
         \<and> TotalInvestment p' = f_add A (TotalInvestment p) usdValue
         \<and> TotalQuantity p' = f_add A (TotalQuantity p) amount
         \<and> Position.AverageCost p' = f_div A (TotalInvestment p') (TotalQuantity p')"
  using assms
  by (auto simp: processOrder_def Let_def applyBuy_def applySell_def positionLeft_def
           split: if_splits sum.splits prod.splits)

text \<open>
  Claim C8, amended. Within an open position an order that does not buy the target mint
  (a sell, whether or not it closes the position) leaves the running average cost as it
  was: a sell never recomputes it. Across buys the average cost is not monotone: every buy
  adds its USD value to the cumulative investment and its amount to the cumulative
  quantity and sets the average cost to the quotient of the two, so that a buy can lower
  it.
\<close>

theorem average_cost_across_orders:
  shows "(Mint (BuyToken order) \<noteq> targetMint
          \<and> processOrder A okx targetMint (positions, Some p) order = Inr st'
        \<longrightarrow> (\<exists>p'. positionLeft st' = Some p'
               \<and> Position.AverageCost p' = Position.AverageCost p))
     \<and> (Mint (BuyToken order) = targetMint
          \<and> processOrder A okx targetMint (positions, Some p) order = Inr st'
        \<longrightarrow> (\<exists>amount usdValue price p'.
                parseTokenAmount A order True = Inr amount
              \<and> getTokenUSDValue A okx order True amount = Inr (usdValue, price)
              \<and> positionLeft st' = Some p'
              \<and> TotalInvestment p' = f_add A (TotalInvestment p) usdValue
              \<and> TotalQuantity p' = f_add A (TotalQuantity p) amount
              \<and> Position.AverageCost p' = f_div A (TotalInvestment p') (TotalQuantity p')))"
  using processOrder_sell_keeps_average [of order targetMint A okx positions p st']
    processOrder_buy_sets_average [of order targetMint A okx positions p st']
  by blast

theorem average_cost_across_orders_witness:
  "Mint (BuyToken sell7) \<noteq> ''TOK''
   \<and> processOrder exactArith (tableOkx examplePrices) ''TOK'' ([], Some positionAfterBuy512) sell7
       = Inr ([], Some (applySell exactArith positionAfterBuy512 sell7 (Fin 7) (Fin 7)))
   \<and> (\<exists>p'. positionLeft ([], Some (applySell exactArith positionAfterBuy512 sell7 (Fin 7) (Fin 7)))
            = Some p'
          \<and> Position.AverageCost p' = Position.AverageCost positionAfterBuy512)
   \<and> Mint (BuyToken buyOneAt2) = ''TOK''
   \<and> processOrder exactArith (tableOkx examplePrices) ''TOK'' ([], Some positionAfterBuy10) buyOneAt2
       = Inr ([], Some (applyBuy exactArith positionAfterBuy10 buyOneAt2 (Fin 1) (Fin 2)))
   \<and> Position.AverageCost positionAfterBuy10 = Fin 10
   \<and> (\<exists>amount usdValue price p'.
         parseTokenAmount exactArith buyOneAt2 True = Inr amount
       \<and> getTokenUSDValue exactArith (tableOkx examplePrices) buyOneAt2 True amount
           = Inr (usdValue, price)
       \<and> positionLeft ([], Some (applyBuy exactArith positionAfterBuy10 buyOneAt2 (Fin 1) (Fin 2)))
           = Some p'
       \<and> TotalInvestment p' = f_add exactArith (TotalInvestment positionAfterBuy10) usdValue
       \<and> TotalQuantity p' = f_add exactArith (TotalQuantity positionAfterBuy10) amount
       \<and> Position.AverageCost p' = f_div exactArith (TotalInvestment p') (TotalQuantity p')
       \<and> Position.AverageCost p' = Fin 6)"
proof -
  have s1: "Mint (BuyToken sell7) \<noteq> ''TOK''"
    by (simp add: sell7_def exampleOrder_def)
  have s2: "processOrder exactArith (tableOkx examplePrices) ''TOK'' ([], Some positionAfterBuy512)
        sell7
       = Inr ([], Some (applySell exactArith positionAfterBuy512 sell7 (Fin 7) (Fin 7)))"
    by (simp add: acct_eval_defs positionAfterBuy512_def)
  have b1: "Mint (BuyToken buyOneAt2) = ''TOK''"
    by (simp add: buyOneAt2_def exampleOrder_def)
  have b2: "processOrder exactArith (tableOkx examplePrices) ''TOK'' ([], Some positionAfterBuy10)
        buyOneAt2
       = Inr ([], Some (applyBuy exactArith positionAfterBuy10 buyOneAt2 (Fin 1) (Fin 2)))"
    by (simp add: acct_eval_defs positionAfterBuy10_def)
  have b3: "Position.AverageCost positionAfterBuy10 = Fin 10"
    by (simp add: positionAfterBuy10_def applyBuy_def newPosition_def exactArith_def Let_def)
  have b4: "Position.AverageCost (applyBuy exactArith positionAfterBuy10 buyOneAt2 (Fin 1) (Fin 2))
       = Fin 6"
    by (simp add: positionAfterBuy10_def applyBuy_def newPosition_def exactArith_def Let_def)
  show ?thesis
    using s1 s2 b1 b2 b3 b4
      average_cost_across_orders [of sell7 "''TOK''" exactArith "tableOkx examplePrices" "[]"
        positionAfterBuy512
        "([], Some (applySell exactArith positionAfterBuy512 sell7 (Fin 7) (Fin 7)))"]
      average_cost_across_orders [of buyOneAt2 "''TOK''" exactArith "tableOkx examplePrices" "[]"
        positionAfterBuy10
        "([], Some (applyBuy exactArith positionAfterBuy10 buyOneAt2 (Fin 1) (Fin 2)))"]
    by (auto simp: positionLeft_def)
qed

section \<open>The figures reported in a result\<close>




section \<open>The order of the fetched transactions\<close>

subsection \<open>The exchange sort\<close>

lemma byTimeThenSlot_trans:
  "byTimeThenSlot a b \<Longrightarrow> byTimeThenSlot b c \<Longrightarrow> byTimeThenSlot a c"
  by (auto simp: byTimeThenSlot_def split: option.splits)

lemma byTimeThenSlot_refl: "byTimeThenSlot (Some a) (Some a)"
  by (simp add: byTimeThenSlot_def)

lemma byTimeThenSlot_swap_cond:
  "(Transaction.BlockTime tj < Transaction.BlockTime ti
     \<or> (Transaction.BlockTime tj = Transaction.BlockTime ti
         \<and> Transaction.Slot tj < Transaction.Slot ti))
   \<Longrightarrow> byTimeThenSlot (Some tj) (Some ti)"
  "\<not> (Transaction.BlockTime tj < Transaction.BlockTime ti
     \<or> (Transaction.BlockTime tj = Transaction.BlockTime ti
         \<and> Transaction.Slot tj < Transaction.Slot ti))
   \<Longrightarrow> byTimeThenSlot (Some ti) (Some tj)"
  by (auto simp: byTimeThenSlot_def)

lemma sortInner_done: "\<not> j < length txs \<Longrightarrow> sortInner i j txs = Inr txs"
  by (subst sortInner.simps) simp

lemma sortInner_step:
  assumes "j < length txs" "i < length txs" "txs ! j = Some tj" "txs ! i = Some ti"
  shows "sortInner i j txs =
     sortInner i (j + 1)
       (if Transaction.BlockTime tj < Transaction.BlockTime ti
           \<or> (Transaction.BlockTime tj = Transaction.BlockTime ti
               \<and> Transaction.Slot tj < Transaction.Slot ti)
        then swapAt i j txs else txs)"
  using assms by (subst sortInner.simps) auto

lemma swapAt_props:
  assumes "i < length xs" "j < length xs"
  shows "length (swapAt i j xs) = length xs" "mset (swapAt i j xs) = mset xs"
    "swapAt i j xs ! i = xs ! j" "swapAt i j xs ! j = xs ! i"
    "k \<noteq> i \<Longrightarrow> k \<noteq> j \<Longrightarrow> swapAt i j xs ! k = xs ! k"
    "i < j \<Longrightarrow> take i (swapAt i j xs) = take i xs"
  using assms
  by (auto simp: swapAt_def mset_swap nth_list_update)

lemma sortInner_min:
  assumes "\<forall>x\<in>set txs. x \<noteq> None" and "i < j" and "i < length txs"
    and "\<forall>k. i < k \<and> k < j \<and> k < length txs \<longrightarrow> byTimeThenSlot (txs ! i) (txs ! k)"
  shows "\<exists>r. sortInner i j txs = Inr r \<and> length r = length txs \<and> mset r = mset txs
           \<and> take i r = take i txs
           \<and> (\<forall>k. i < k \<and> k < length r \<longrightarrow> byTimeThenSlot (r ! i) (r ! k))"
  using assms
proof (induction "length txs - j" arbitrary: j txs)
  case 0
  then have "\<not> j < length txs" by simp
  with "0.prems" show ?case by (simp add: sortInner_done)
next
  case (Suc n)
  then have j: "j < length txs" by simp
  note i = \<open>i < length txs\<close>
  from Suc.prems(1) i j obtain tj ti where e: "txs ! j = Some tj" "txs ! i = Some ti"
    by (metis nth_mem not_None_eq)
  define c where "c = (Transaction.BlockTime tj < Transaction.BlockTime ti
           \<or> (Transaction.BlockTime tj = Transaction.BlockTime ti
               \<and> Transaction.Slot tj < Transaction.Slot ti))"
  define txs' where "txs' = (if c then swapAt i j txs else txs)"
  have step: "sortInner i j txs = sortInner i (j + 1) txs'"
    using sortInner_step [OF j i e] by (simp add: txs'_def c_def)
  have len: "length txs' = length txs" and ms: "mset txs' = mset txs"
    and tk: "take i txs' = take i txs"
    using i j \<open>i < j\<close> by (simp_all add: txs'_def swapAt_props)
  from ms Suc.prems(1) have some: "\<forall>x\<in>set txs'. x \<noteq> None"
    by (metis mset_eq_setD)
  have inv: "\<forall>k. i < k \<and> k < j + 1 \<and> k < length txs' \<longrightarrow> byTimeThenSlot (txs' ! i) (txs' ! k)"
  proof (intro allI impI)
    fix k assume k: "i < k \<and> k < j + 1 \<and> k < length txs'"
    show "byTimeThenSlot (txs' ! i) (txs' ! k)"
    proof (cases c)
      case True
      then have ji: "byTimeThenSlot (Some tj) (Some ti)"
        using byTimeThenSlot_swap_cond(1) [of tj ti] by (simp add: c_def)
      show ?thesis
      proof (cases "k = j")
        case True
        with \<open>c\<close> e i j ji show ?thesis by (simp add: txs'_def swapAt_props)
      next
        case False
        with k len have kk: "i < k \<and> k < j \<and> k < length txs" by simp
        with Suc.prems(4) have "byTimeThenSlot (txs ! i) (txs ! k)" by blast
        with ji e have "byTimeThenSlot (Some tj) (txs ! k)"
          by (metis byTimeThenSlot_trans)
        moreover from kk False have "txs' ! k = txs ! k"
          using i j \<open>c\<close> by (simp add: txs'_def swapAt_props)
        ultimately show ?thesis using \<open>c\<close> e i j by (simp add: txs'_def swapAt_props)
      qed
    next
      case False
      then have ij: "byTimeThenSlot (Some ti) (Some tj)"
        using byTimeThenSlot_swap_cond(2) [of tj ti] by (simp add: c_def)
      show ?thesis
      proof (cases "k = j")
        case True
        with False e ij show ?thesis by (simp add: txs'_def)
      next
        case kj: False
        with k len have "i < k \<and> k < j \<and> k < length txs" by simp
        with Suc.prems(4) False show ?thesis by (simp add: txs'_def)
      qed
    qed
  qed
  have "n = length txs' - (j + 1)" using Suc.hyps(2) len by simp
  from Suc.hyps(1) [OF this some _ _ inv] \<open>i < j\<close> i len
  obtain r where "sortInner i (j + 1) txs' = Inr r" "length r = length txs'" "mset r = mset txs'"
    "take i r = take i txs'" "\<forall>k. i < k \<and> k < length r \<longrightarrow> byTimeThenSlot (r ! i) (r ! k)"
    by auto
  with step len ms tk show ?case by simp
qed

lemma sortOuter_done: "\<not> i < length txs \<Longrightarrow> sortOuter i txs = Inr txs"
  by (subst sortOuter.simps) simp

lemma sortOuter_sorts:
  assumes "\<forall>x\<in>set txs. x \<noteq> None"
    and "\<forall>a b. a < b \<and> b < length txs \<and> a < i \<longrightarrow> byTimeThenSlot (txs ! a) (txs ! b)"
  shows "\<exists>r. sortOuter i txs = Inr r \<and> mset r = mset txs
           \<and> (\<forall>a b. a < b \<and> b < length r \<longrightarrow> byTimeThenSlot (r ! a) (r ! b))"
  using assms
proof (induction "length txs - i" arbitrary: i txs)
  case 0
  then have "\<not> i < length txs" by simp
  moreover have "\<forall>a b. a < b \<and> b < length txs \<longrightarrow> byTimeThenSlot (txs ! a) (txs ! b)"
  proof (intro allI impI)
    fix a b assume ab: "a < b \<and> b < length txs"
    with \<open>\<not> i < length txs\<close> have "a < i" by linarith
    with ab "0.prems"(2) show "byTimeThenSlot (txs ! a) (txs ! b)" by blast
  qed
  ultimately show ?case by (simp add: sortOuter_done)
next
  case (Suc n)
  then have i: "i < length txs" by simp
  have l: "i < i + 1"
    by simp
  have v: "\<forall>k. i < k \<and> k < i + 1 \<and> k < length txs \<longrightarrow> byTimeThenSlot (txs ! i) (txs ! k)"
    by auto
  from sortInner_min [OF Suc.prems(1) l i v]
  obtain r where r: "sortInner i (i + 1) txs = Inr r" "length r = length txs" "mset r = mset txs"
    "take i r = take i txs" "\<forall>k. i < k \<and> k < length r \<longrightarrow> byTimeThenSlot (r ! i) (r ! k)"
    by blast
  from r(3) Suc.prems(1) have some: "\<forall>x\<in>set r. x \<noteq> None"
    by (metis mset_eq_setD)
  have "mset (take i r) + mset (drop i r) = mset (take i txs) + mset (drop i txs)"
    using r(3) by (metis append_take_drop_id mset_append)
  with r(4) have "mset (drop i r) = mset (drop i txs)" by simp
  then have sd: "set (drop i r) = set (drop i txs)" by (metis mset_eq_setD)
  have inv: "\<forall>a b. a < b \<and> b < length r \<and> a < i + 1 \<longrightarrow> byTimeThenSlot (r ! a) (r ! b)"
  proof (intro allI impI)
    fix a b assume ab: "a < b \<and> b < length r \<and> a < i + 1"
    show "byTimeThenSlot (r ! a) (r ! b)"
    proof (cases "a = i")
      case True
      with ab r(5) show ?thesis by simp
    next
      case False
      with ab have ai: "a < i" by simp
      then have ra: "r ! a = txs ! a"
        by (metis r(4) nth_take)
      show ?thesis
      proof (cases "b < i")
        case True
        then have "r ! b = txs ! b" by (metis r(4) nth_take)
        with ra Suc.prems(2) ab ai r(2) show ?thesis by simp
      next
        case False
        with ab have ib: "i \<le> b" "b < length r" by simp_all
        then have bi: "b - i < length (drop i r)" by (simp add: diff_less_mono)
        from ib have "drop i r ! (b - i) = r ! b" by simp
        with bi have "r ! b \<in> set (drop i r)"
          by (metis nth_mem)
        with sd have "r ! b \<in> set (drop i txs)" by simp
        then obtain m where m: "m < length (drop i txs)" "drop i txs ! m = r ! b"
          by (auto simp: in_set_conv_nth)
        then have im: "i + m < length txs" and eq: "txs ! (i + m) = r ! b"
          using i by simp_all
        from ai have "a < i + m" by simp
        with Suc.prems(2) im ai have "byTimeThenSlot (txs ! a) (txs ! (i + m))" by blast
        with ra eq show ?thesis by simp
      qed
    qed
  qed
  have "n = length r - (i + 1)" using Suc.hyps(2) r(2) by simp
  from Suc.hyps(1) [OF this some inv]
  obtain r' where "sortOuter (i + 1) r = Inr r'" "mset r' = mset r"
    "\<forall>a b. a < b \<and> b < length r' \<longrightarrow> byTimeThenSlot (r' ! a) (r' ! b)"
    by blast
  moreover have "sortOuter i txs = sortOuter (i + 1) r"
    using i r(1) by (subst sortOuter.simps) simp
  ultimately show ?case using r(3) by simp
qed

subsection \<open>No nil pointer reaches the sort\<close>

lemma sortTransactionsByTime_sorts:
  assumes "\<forall>x\<in>set txs. x \<noteq> None"
  shows "\<exists>r. sortTransactionsByTime txs = Inr r \<and> mset r = mset txs
           \<and> sorted_wrt byTimeThenSlot r"
proof -
  from sortOuter_sorts [OF assms, of 0]
  obtain r where "sortOuter 0 txs = Inr r" "mset r = mset txs"
    "\<forall>a b. a < b \<and> b < length r \<longrightarrow> byTimeThenSlot (r ! a) (r ! b)"
    by auto
  then show ?thesis
    by (auto simp: sortTransactionsByTime_def sorted_wrt_iff_nth_less)
qed

lemma getCachedTransactions_some:
  "getCachedTransactions c sigs = (cached, remaining) \<Longrightarrow> \<forall>x\<in>set cached. x \<noteq> None"
  by (induction sigs arbitrary: cached remaining) (auto split: prod.splits option.splits)

lemma collect_filled:
  assumes "collect rs results firstErr = Inr (results', firstErr')"
  shows "length results' = length results
     \<and> (\<forall>k < length results.
          results ! k \<noteq> None \<or> (\<exists>res\<in>set rs. res_index res = k) \<longrightarrow> results' ! k \<noteq> None)"
  using assms
proof (induction rs arbitrary: results firstErr)
  case Nil
  then show ?case by simp
next
  case (Cons res rs)
  from Cons.prems obtain t where t: "res_tx res = Some t"
    by (auto split: option.splits)
  define results1 where "results1 = results[res_index res := Some t]"
  from Cons.prems t obtain fe where "collect rs results1 fe = Inr (results', firstErr')"
    by (auto simp: results1_def Let_def)
  from Cons.IH [OF this]
  have ih: "length results' = length results1"
    "\<forall>k < length results1.
        results1 ! k \<noteq> None \<or> (\<exists>res\<in>set rs. res_index res = k) \<longrightarrow> results' ! k \<noteq> None"
    by simp_all
  have "results1 ! k \<noteq> None"
    if "k < length results" "results ! k \<noteq> None \<or> res_index res = k" for k
    using that by (cases "k = res_index res") (auto simp: results1_def)
  with ih show ?case
    by (auto simp: results1_def)
qed

lemma concurrentGetTransactions_some:
  assumes "concurrentGetTransactions up arrival sigs = Inr results"
    and "\<forall>rs. mset (arrival rs) = mset rs"
  shows "\<forall>x\<in>set results. x \<noteq> None"
proof -
  define sent where "sent = map (\<lambda>(idx, signature). worker up idx signature)
                   (zip [0 ..< length sigs] sigs)"
  from assms(1) obtain fe where
    c: "collect (arrival sent) (replicate (length sigs) None) None = Inr (results, fe)"
    by (auto simp: concurrentGetTransactions_def sent_def Let_def split: sum.splits option.splits)
  have idx: "res_index (worker up i s) = i" for i s
    by (simp add: worker_def Let_def split: sum.splits)
  have "\<exists>res\<in>set sent. res_index res = k" if "k < length sigs" for k
  proof -
    from that have "(k, sigs ! k) \<in> set (zip [0 ..< length sigs] sigs)"
      by (auto simp: set_zip intro!: exI [of _ k])
    then have "worker up k (sigs ! k) \<in> set sent"
      by (force simp: sent_def)
    with idx show ?thesis by blast
  qed
  moreover have "set (arrival sent) = set sent"
    using assms(2) by (metis mset_eq_setD)
  ultimately have all: "\<forall>k < length sigs. \<exists>res\<in>set (arrival sent). res_index res = k"
    by simp
  from collect_filled [OF c] all
  have "length results = length sigs" "\<forall>k < length sigs. results ! k \<noteq> None"
    by simp_all
  then show ?thesis
    by (metis in_set_conv_nth)
qed


text \<open>
  Claim C6. On every slice of (non-nil) transactions \<open>sortTransactionsByTime\<close> returns a
  rearrangement of the slice that is ascending by block time with the slot as tie-breaker;
  and whatever order the cache hits and the concurrently fetched results are merged in
  (every arrival order of the workers' results), the sequence that \<open>GetTransactions\<close>
  returns is in that order.
\<close>

theorem GetTransactions_sorted:
  "((\<forall>x\<in>set txs. x \<noteq> None) \<longrightarrow>
      (\<exists>r. sortTransactionsByTime txs = Inr r \<and> mset r = mset txs
            \<and> sorted_wrt byTimeThenSlot r))
   \<and> ((\<forall>rs. mset (arrival rs) = mset rs)
        \<and> GetTransactions up arrival batchSize c userAddress limit = Inr (result, c')
      \<longrightarrow> sorted_wrt byTimeThenSlot result)"
proof (intro conjI impI)
  assume "\<forall>x\<in>set txs. x \<noteq> None"
  then show "\<exists>r. sortTransactionsByTime txs = Inr r \<and> mset r = mset txs
            \<and> sorted_wrt byTimeThenSlot r"
    by (rule sortTransactionsByTime_sorts)
next
  assume h: "(\<forall>rs. mset (arrival rs) = mset rs)
        \<and> GetTransactions up arrival batchSize c userAddress limit = Inr (result, c')"
  then obtain signatures where
    sigs: "getPaginatedSignatures up batchSize userAddress limit = Inr signatures"
    by (auto simp: GetTransactions_def split: sum.splits)
  show "sorted_wrt byTimeThenSlot result"
  proof (cases "signatures = []")
    case True
    with h sigs show ?thesis by (simp add: GetTransactions_def)
  next
    case False
    with h sigs obtain transactions where
      b: "getBatchTransactions up arrival c signatures = Inr (transactions, c')"
      and s: "sortTransactionsByTime transactions = Inr result"
      by (auto simp: GetTransactions_def split: sum.splits)
    obtain cached remaining where
      g: "getCachedTransactions c signatures = (cached, remaining)"
      by (cases "getCachedTransactions c signatures")
    have "\<forall>x\<in>set transactions. x \<noteq> None"
    proof (cases "remaining = []")
      case True
      with b g have "transactions = cached" by (simp add: getBatchTransactions_def)
      with getCachedTransactions_some [OF g] show ?thesis by simp
    next
      case False
      with b g obtain new where
        n: "concurrentGetTransactions up arrival remaining = Inr new"
        and "transactions = cached @ new"
        by (auto simp: getBatchTransactions_def split: sum.splits)
      with getCachedTransactions_some [OF g] concurrentGetTransactions_some [OF n] h
      show ?thesis by auto
    qed
    from sortTransactionsByTime_sorts [OF this] s show ?thesis by simp
  qed
qed

lemma example_GetTransactions:
  "GetTransactions exampleUpstream rev 50 exampleCache ''wallet'' 3 =
     Inr ([Some (exampleTx ''s3'' 10 zeroTime None), Some (exampleTx ''s2'' 20 100 (Some 100)),
           Some (exampleTx ''s1'' 30 200 (Some 200))],
          exampleCache(''s1'' \<mapsto> exampleTx ''s1'' 30 200 (Some 200),
                       ''s2'' \<mapsto> exampleTx ''s2'' 20 100 (Some 100)))"
  by (simp add: GetTransactions_def getPaginatedSignatures_def pageLoop.simps exampleUpstream_def
        getBatchTransactions_def exampleCache_def concurrentGetTransactions_def worker_def
        exampleRaw_def exampleTx_def zeroTime_def sortTransactionsByTime_def sortOuter.simps
        sortInner.simps swapAt_def Let_def upt_rec)

theorem GetTransactions_sorted_witness:
  "(\<forall>rs :: fetchResult list. mset (rev rs) = mset rs)
   \<and> GetTransactions exampleUpstream rev 50 exampleCache ''wallet'' 3 =
       Inr ([Some (exampleTx ''s3'' 10 zeroTime None), Some (exampleTx ''s2'' 20 100 (Some 100)),
             Some (exampleTx ''s1'' 30 200 (Some 200))],
            exampleCache(''s1'' \<mapsto> exampleTx ''s1'' 30 200 (Some 200),
                         ''s2'' \<mapsto> exampleTx ''s2'' 20 100 (Some 100)))
   \<and> sorted_wrt byTimeThenSlot
       [Some (exampleTx ''s3'' 10 zeroTime None), Some (exampleTx ''s2'' 20 100 (Some 100)),
        Some (exampleTx ''s1'' 30 200 (Some 200))]
   \<and> (\<exists>r. sortTransactionsByTime
             [Some (exampleTx ''s1'' 30 200 (Some 200)), Some (exampleTx ''s2'' 20 100 (Some 100))]
           = Inr r \<and> sorted_wrt byTimeThenSlot r)"
proof -
  have p: "\<forall>rs :: fetchResult list. mset (rev rs) = mset rs"
    by simp
  have s: "\<forall>x\<in>set [Some (exampleTx ''s1'' 30 200 (Some 200)),
                     Some (exampleTx ''s2'' 20 100 (Some 100))]. x \<noteq> None"
    by simp
  show ?thesis
    using p s example_GetTransactions
      GetTransactions_sorted [of "[Some (exampleTx ''s1'' 30 200 (Some 200)),
          Some (exampleTx ''s2'' 20 100 (Some 100))]" rev exampleUpstream 50 exampleCache
        "''wallet''" 3
        "[Some (exampleTx ''s3'' 10 zeroTime None), Some (exampleTx ''s2'' 20 100 (Some 100)),
          Some (exampleTx ''s1'' 30 200 (Some 200))]"
        "exampleCache(''s1'' \<mapsto> exampleTx ''s1'' 30 200 (Some 200),
                      ''s2'' \<mapsto> exampleTx ''s2'' 20 100 (Some 100))"]
    by auto
qed

section \<open>A failed fetch in a batch\<close>

lemma collect_nil_tx_panics:
  assumes "\<exists>res\<in>set rs. res_tx res = None"
  shows "collect rs results firstErr = Inl PanicNilPointer"
  using assms
  by (induction rs arbitrary: results firstErr) (auto simp: Let_def split: option.splits)

lemma worker_failed:
  "GetTransaction up signature = Inl msg \<Longrightarrow> res_tx (worker up idx signature) = None"
  by (simp add: worker_def)

text \<open>
  Claim C2 does not hold of the code. The collecting loop reads \<open>res.tx.Signature\<close> as its
  first statement, and the message of a failed fetch carries a nil \<open>tx\<close>: whenever some
  fetch of the batch fails, in every arrival order, the loop dereferences a nil pointer and
  panics, so the first error is never returned as an error value.
\<close>

theorem failed_fetch_panics:
  assumes "\<forall>rs. mset (arrival rs) = mset rs"
    and "k < length signatures"
    and "GetTransaction up (signatures ! k) = Inl msg"
  shows "concurrentGetTransactions up arrival signatures = Inl PanicNilPointer"
proof -
  define sent where "sent = map (\<lambda>(idx, signature). worker up idx signature)
                   (zip [0 ..< length signatures] signatures)"
  from assms(2) have "(k, signatures ! k) \<in> set (zip [0 ..< length signatures] signatures)"
    by (auto simp: set_zip intro!: exI [of _ k])
  then have "worker up k (signatures ! k) \<in> set sent"
    by (force simp: sent_def)
  moreover have "set (arrival sent) = set sent"
    using assms(1) by (metis mset_eq_setD)
  ultimately have "\<exists>res\<in>set (arrival sent). res_tx res = None"
    using worker_failed [OF assms(3)] by blast
  from collect_nil_tx_panics [OF this]
  show ?thesis
    by (simp add: concurrentGetTransactions_def sent_def Let_def)
qed

theorem failed_fetch_panics_witness:
  "(\<forall>rs :: fetchResult list. mset (rev rs) = mset rs)
   \<and> (1 :: nat) < length [''s1'', ''missing'']
   \<and> GetTransaction exampleUpstream ([''s1'', ''missing''] ! 1) = Inl ''not found''
   \<and> concurrentGetTransactions exampleUpstream rev [''s1'', ''missing''] = Inl PanicNilPointer"
proof -
  have p: "\<forall>rs :: fetchResult list. mset (rev rs) = mset rs"
    by simp
  have l: "(1 :: nat) < length [''s1'', ''missing'']"
    by simp
  have g: "GetTransaction exampleUpstream ([''s1'', ''missing''] ! 1) = Inl ''not found''"
    by (simp add: exampleUpstream_def)
  show ?thesis
    using p l g failed_fetch_panics [OF p l g]
    by simp
qed

section \<open>Reconstructing the instruction tree\<close>

subsection \<open>The flattened instruction list\<close>






subsection \<open>Linking the nodes\<close>








subsection \<open>The returned tree\<close>







subsection \<open>Reconstruction on the example transactions\<close>

lemma replicate_numeral_unfold: "replicate (numeral k) x = x # replicate (pred_numeral k) x"
  by (simp add: numeral_eq_Suc)

lemmas tree_eval_defs =
  ParseInstructionTreeByStackHeight_def exampleSwapRaw_def exampleMessage_def exampleMeta_def
  getAllInstructionsWithStackHeight_def topLevelInstruction_def Let_def upt_rec buildNode_def
  newNode_def link_def findParentByStackHeight_def exampleHeap_def

lemma example_tree:
  "ParseInstructionTreeByStackHeight 3 (exampleSwapRaw payload preSol postSol preTok postTok)
     = Inr (exampleHeap payload, 3)"
  by (simp add: tree_eval_defs numeral_3_eq_3)




section \<open>Evaluating the order assembler on the example transactions\<close>

lemma example_keys:
  "GetFullAccountKeys (exampleSwapRaw payload preSol postSol preTok postTok)
     = Inr [''wallet'', ''JUP'', ''tokenAccount'']"
  by (simp add: GetFullAccountKeys_def exampleSwapRaw_def exampleMessage_def exampleMeta_def)

lemma example_nodes:
  "FindNodesByProgramID 3 [''wallet'', ''JUP'', ''tokenAccount''] (exampleHeap payload) 3 ''JUP''
     = Inr ([1], [2])"
  by (simp add: FindNodesByProgramID_def exampleHeap_def visitNode_def Let_def numeral_3_eq_3
        routeTag_def eventTag_def eventTag2_def)

lemma example_FormatInt:
  "FormatInt 0 = ''0''" "FormatInt 5 = ''5''" "FormatInt 100 = ''100''"
  "FormatInt 995 = ''995''" "FormatInt 1000 = ''1000''"
  "FormatInt 9223372036854775808 = ''9223372036854775808''"
  by (simp_all add: FormatInt_def dec_digits.simps)

lemma example_SetString:
  "big_SetString ''0'' = Some 0" "big_SetString ''100'' = Some 100"
  "big_SetString ''995'' = Some 995" "big_SetString ''1000'' = Some 1000"
  "big_SetString ''9223372036854775808'' = Some 9223372036854775808"
  by (simp_all add: big_SetString_def digit_val_def)

lemma example_formatTokenAmount:
  "formatTokenAmount ''100'' 6 = ''0.000100''"
  "formatTokenAmount ''5'' 9 = ''0.000000005''"
  "formatTokenAmount ''0'' 9 = ''0.000000000''"
  "formatTokenAmount ''9223372036854775808'' 6 = ''9223372036854.775808''"
  by (simp_all add: formatTokenAmount_def Let_def replicate_numeral_unfold)

lemmas balance_eval_defs =
  GetBalanceChanges_def exampleSwapRaw_def exampleMeta_def exampleTokenBalance_def
  addTokenBalance_def addNativeBalance_def addVanishedEntry_def computeChange_def
  example_FormatInt example_SetString example_formatTokenAmount Let_def exampleChange_def
  exampleChanges_def exampleHugeChanges_def

lemma example_changes:
  "GetBalanceChanges (exampleSwapRaw payload 1000 995 ''0'' ''100'')
       [''wallet'', ''JUP'', ''tokenAccount'']
     = Inr ([(''tokenAccount'', \<lparr>TokenInfo.Owner = ''wallet'', Mint = ''TOK'', Decimals = 6\<rparr>)],
            exampleChanges)"
  by (simp add: balance_eval_defs)


lemmas order_eval_defs =
  exampleHeap_def eventStep_def decodeEvent_def eventTag_def eventTag2_def
  exampleDeserialize_def normalizeMint_def makeOrder_def lookupChange_def exampleChanges_def
  exampleHugeChanges_def exampleBuyOrder_def exampleHugeOrder_def

lemma example_processTx_buy:
  "processTx 3 exampleDeserialize ''JUP'' ''wallet'' ''TOK''
       (exampleSwapTx sig [7] 1000 995 ''0'' ''100'')
     = Inr (Some (exampleBuyOrder sig))"
  by (simp add: processTx_def exampleSwapTx_def example_keys example_tree example_nodes
        example_changes)
     (simp add: order_eval_defs)



text \<open>
  Every order in the list that the loop returns was there before or was built from one of
  the transactions.
\<close>

lemma ordersLoop_orders:
  assumes "ordersLoop steps deserialize jupiterPID user mint txList acc = Inr orders"
    and "order \<in> set orders"
  shows "order \<in> set acc
     \<or> (\<exists>t. Some t \<in> set txList
            \<and> processTx steps deserialize jupiterPID user mint t = Inr (Some order))"
  using assms
proof (induction txList arbitrary: acc)
  case Nil
  then show ?case by simp
next
  case (Cons x txList)
  from Cons.prems(1) obtain t where x: "x = Some t"
    by (cases x) simp_all
  show ?case
  proof (cases "processTx steps deserialize jupiterPID user mint t")
    case (Inl e)
    with Cons.prems(1) x show ?thesis by simp
  next
    case (Inr r)
    show ?thesis
    proof (cases r)
      case None
      with Inr x Cons.prems(1)
      have "ordersLoop steps deserialize jupiterPID user mint txList acc = Inr orders"
        by simp
      from Cons.IH [OF this Cons.prems(2)] show ?thesis by auto
    next
      case (Some newOrder)
      with Inr x Cons.prems(1)
      have "ordersLoop steps deserialize jupiterPID user mint txList (acc @ [newOrder]) = Inr orders"
        by simp
      from Cons.IH [OF this Cons.prems(2)] Inr Some x show ?thesis by auto
    qed
  qed
qed

lemma fetchJupiterOrders_orders:
  assumes "fetchJupiterOrders steps deserialize jupiterPID txList user mint = Inr orders"
    and "order \<in> set orders"
  shows "\<exists>t. Some t \<in> set txList
            \<and> processTx steps deserialize jupiterPID user mint t = Inr (Some order)"
proof (cases "txList = []")
  case True
  with assms show ?thesis by (simp add: fetchJupiterOrders_def)
next
  case False
  with assms(1) have "ordersLoop steps deserialize jupiterPID user mint txList [] = Inr orders"
    by (simp add: fetchJupiterOrders_def)
  from ordersLoop_orders [OF this assms(2)] show ?thesis by simp
qed

text \<open>
  What \<open>processTx\<close> went through when it returns an order: the keys, the tree, one route
  instruction, the balance changes, the two mints taken from the events, and one of the
  two branches of \<open>makeOrder\<close>.
\<close>

lemma processTx_order:
  assumes "processTx steps deserialize jupiterPID user mint t = Inr (Some order)"
  shows "\<exists>keys h insTree route event tokenMap tokenChangeMap buyTokenMint sellTokenMint.
           GetFullAccountKeys (RawTx t) = Inr keys
         \<and> ParseInstructionTreeByStackHeight steps (RawTx t) = Inr (h, insTree)
         \<and> FindNodesByProgramID steps keys h insTree jupiterPID = Inr (route, event)
         \<and> length route = 1
         \<and> GetBalanceChanges (RawTx t) keys = Inr (tokenMap, tokenChangeMap)
         \<and> eventLoop deserialize h (length event) 0 event ([], [])
             = Inr (buyTokenMint, sellTokenMint)
         \<and> makeOrder t user mint tokenChangeMap (normalizeMint buyTokenMint)
             (normalizeMint sellTokenMint) = Inr (Some order)"
  using assms
  by (auto simp: processTx_def split: sum.splits if_splits prod.splits)
     (metis Suc_lessI length_greater_0_conv)

lemma makeOrder_mints:
  assumes "makeOrder t user mint tokenChangeMap buyTokenMint sellTokenMint = Inr (Some order)"
  shows "Mint (BuyToken order) = buyTokenMint \<and> Mint (SellToken order) = sellTokenMint
     \<and> (sellTokenMint = mint \<or> buyTokenMint = mint)"
  using assms
  by (auto simp: makeOrder_def orderToken_def split: if_splits sum.splits)


section \<open>A swap event that does not decode\<close>












section \<open>The amounts of an assembled order\<close>

lemma makeOrder_buy_branch:
  assumes "makeOrder t user mint tokenChangeMap buyTokenMint sellTokenMint = Inr (Some order)"
    and "sellTokenMint \<noteq> mint"
  shows "buyTokenMint = mint
     \<and> Signature order = Transaction.Signature t
     \<and> (\<exists>change. map_of tokenChangeMap (user, mint) = Some change
          \<and> BuyToken order = orderToken mint change
          \<and> SellToken order = orderToken sellTokenMint change)"
  using assms
  by (auto simp: makeOrder_def lookupChange_def split: if_splits sum.splits option.splits)

text \<open>
  Claim C1. The claim holds of an order whose sell asset is the target mint. It fails for
  an order whose buy asset is the target mint: the branch that builds such an order looks
  up the sell-side change under \<open>buyTokenMint\<close>, so both sides of the order carry the
  wallet's balance delta of the target mint, and the delta of the sell asset is not used.
\<close>

theorem buy_order_repeats_buy_delta:
  assumes "fetchJupiterOrders steps deserialize jupiterPID txList user mint = Inr orders"
    and "order \<in> set orders"
    and "Mint (SellToken order) \<noteq> mint"
  shows "Mint (BuyToken order) = mint
     \<and> (\<exists>t keys tokenMap tokenChangeMap change.
          Some t \<in> set txList
        \<and> Signature order = Transaction.Signature t
        \<and> GetFullAccountKeys (RawTx t) = Inr keys
        \<and> GetBalanceChanges (RawTx t) keys = Inr (tokenMap, tokenChangeMap)
        \<and> map_of tokenChangeMap (user, mint) = Some change
        \<and> UiTokenAmount (BuyToken order) = UiTokenAmount (orderToken mint change)
        \<and> UiTokenAmount (SellToken order) = UiTokenAmount (orderToken mint change))"
proof -
  from fetchJupiterOrders_orders [OF assms(1,2)] obtain t where
    t: "Some t \<in> set txList"
    and p: "processTx steps deserialize jupiterPID user mint t = Inr (Some order)"
    by blast
  from processTx_order [OF p] obtain keys tokenMap tokenChangeMap b s where
    k: "GetFullAccountKeys (RawTx t) = Inr keys"
    and c: "GetBalanceChanges (RawTx t) keys = Inr (tokenMap, tokenChangeMap)"
    and m: "makeOrder t user mint tokenChangeMap (normalizeMint b) (normalizeMint s)
              = Inr (Some order)"
    by blast
  from makeOrder_mints [OF m] assms(3) have "normalizeMint s \<noteq> mint"
    by auto
  from makeOrder_buy_branch [OF m this] obtain change where
    "normalizeMint b = mint" "Signature order = Transaction.Signature t"
    "map_of tokenChangeMap (user, mint) = Some change"
    "BuyToken order = orderToken mint change"
    "SellToken order = orderToken (normalizeMint s) change"
    by blast
  with t k c show ?thesis
    by (auto simp: orderToken_def)
qed

text \<open>
  In the example the wallet pays 5 lamports and receives 100 units of \<open>TOK\<close>; the order
  for the target mint \<open>TOK\<close> says that 100 units of \<open>SOL\<close> were sold.
\<close>

theorem buy_order_repeats_buy_delta_witness:
  "fetchJupiterOrders 3 exampleDeserialize ''JUP''
       [Some (exampleSwapTx ''good'' [7] 1000 995 ''0'' ''100'')] ''wallet'' ''TOK''
     = Inr [exampleBuyOrder ''good'']
   \<and> exampleBuyOrder ''good'' \<in> set [exampleBuyOrder ''good'']
   \<and> Mint (SellToken (exampleBuyOrder ''good'')) = ''SOL''
   \<and> Mint (BuyToken (exampleBuyOrder ''good'')) = ''TOK''
   \<and> GetBalanceChanges (RawTx (exampleSwapTx ''good'' [7] 1000 995 ''0'' ''100''))
         [''wallet'', ''JUP'', ''tokenAccount'']
       = Inr ([(''tokenAccount'', \<lparr>TokenInfo.Owner = ''wallet'', Mint = ''TOK'', Decimals = 6\<rparr>)],
              exampleChanges)
   \<and> map_of exampleChanges (''wallet'', ''SOL'') = Some (exampleChange ''5'' 9 ''0.000000005'')
   \<and> map_of exampleChanges (''wallet'', ''TOK'') = Some (exampleChange ''100'' 6 ''0.000100'')
   \<and> UiTokenAmount.Amount (UiTokenAmount (BuyToken (exampleBuyOrder ''good''))) = ''100''
   \<and> UiTokenAmount.Amount (UiTokenAmount (SellToken (exampleBuyOrder ''good''))) = ''100''
   \<and> UiTokenAmount (SellToken (exampleBuyOrder ''good''))
       = UiTokenAmount (BuyToken (exampleBuyOrder ''good''))"
proof -
  have f: "fetchJupiterOrders 3 exampleDeserialize ''JUP''
       [Some (exampleSwapTx ''good'' [7] 1000 995 ''0'' ''100'')] ''wallet'' ''TOK''
     = Inr [exampleBuyOrder ''good'']"
    by (simp add: fetchJupiterOrders_def example_processTx_buy)
  have i: "exampleBuyOrder ''good'' \<in> set [exampleBuyOrder ''good'']"
    by simp
  have s: "Mint (SellToken (exampleBuyOrder ''good'')) \<noteq> ''TOK''"
    by (simp add: exampleBuyOrder_def orderToken_def)
  have c: "GetBalanceChanges (RawTx (exampleSwapTx ''good'' [7] 1000 995 ''0'' ''100''))
         [''wallet'', ''JUP'', ''tokenAccount'']
       = Inr ([(''tokenAccount'', \<lparr>TokenInfo.Owner = ''wallet'', Mint = ''TOK'', Decimals = 6\<rparr>)],
              exampleChanges)"
    by (simp add: exampleSwapTx_def example_changes)
  have m: "map_of exampleChanges (''wallet'', ''SOL'') = Some (exampleChange ''5'' 9 ''0.000000005'')"
    "map_of exampleChanges (''wallet'', ''TOK'') = Some (exampleChange ''100'' 6 ''0.000100'')"
    by (simp_all add: exampleChanges_def)
  have a: "Mint (SellToken (exampleBuyOrder ''good'')) = ''SOL''"
    "UiTokenAmount.Amount (UiTokenAmount (BuyToken (exampleBuyOrder ''good''))) = ''100''"
    "UiTokenAmount.Amount (UiTokenAmount (SellToken (exampleBuyOrder ''good''))) = ''100''"
    by (simp_all add: exampleBuyOrder_def orderToken_def exampleChange_def)
  show ?thesis
    using f i c m a buy_order_repeats_buy_delta [OF f i s]
    by auto
qed

section \<open>Amounts that do not fit a signed 64-bit integer\<close>








end
